theory Spec2Isabelle
  imports Main "HOL-Library.Sublist"
begin

section \<open>String primitives of the platform\<close>

text \<open>
  The service of \<^verbatim>\<open>src/server/src/services/whatsapp.ts\<close> works on JavaScript strings.
  They are modelled as \<^typ>\<open>string\<close>, a list of 8-bit characters, so the model covers the
  strings whose code units are below 256. The library methods the service calls are
  rendered below with the meaning they have for a string pattern.
\<close>

text \<open>\<^verbatim>\<open>s.endsWith(pat)\<close> and \<^verbatim>\<open>s.includes(pat)\<close>.\<close>

definition endsWith :: "string \<Rightarrow> string \<Rightarrow> bool" where
  "endsWith s pat = suffix pat s"

definition includes_str :: "string \<Rightarrow> string \<Rightarrow> bool" where
  "includes_str s pat = sublist pat s"

text \<open>
  \<^verbatim>\<open>s.replace(pat, rep)\<close> with a string pattern: only the first occurrence of the
  pattern, scanning from the left, is replaced.
\<close>

fun replace_str :: "string \<Rightarrow> string \<Rightarrow> string \<Rightarrow> string" where
  "replace_str [] pat rep = (if pat = [] then rep else [])"
| "replace_str (c # cs) pat rep =
     (if prefix pat (c # cs) then rep @ drop (length pat) (c # cs)
      else c # replace_str cs pat rep)"

text \<open>
  \<^verbatim>\<open>s.split(sep)\<close> for a one-character separator. The array it returns is never
  empty, so the element \<^verbatim>\<open>[0]\<close> the service reads always exists.
\<close>

fun split_str :: "string \<Rightarrow> char \<Rightarrow> string list" where
  "split_str [] sep = [[]]"
| "split_str (c # cs) sep =
     (if c = sep then [] # split_str cs sep
      else (case split_str cs sep of [] \<Rightarrow> [[c]] | x # xs \<Rightarrow> (c # x) # xs))"

text \<open>
  \<^verbatim>\<open>s.trim()\<close> removes white space and line terminators from both ends. Of the
  characters ECMAScript lists, these are the ones below 256: tab, line feed, vertical
  tab, form feed, carriage return, space and no-break space.
\<close>

definition isWhiteSpace :: "char \<Rightarrow> bool" where
  "isWhiteSpace c = (c \<in> {CHR 0x09, CHR 0x0A, CHR 0x0B, CHR 0x0C, CHR 0x0D, CHR 0x20, CHR 0xA0})"

definition trim :: "string \<Rightarrow> string" where
  "trim s = rev (dropWhile isWhiteSpace (rev (dropWhile isWhiteSpace s)))"

text \<open>
  A template literal \<^verbatim>\<open>${code}\<close> over an exit code, which is an integer or
  \<^verbatim>\<open>null\<close>: decimal digits, a minus sign for a negative number, the word
  \<^verbatim>\<open>null\<close> otherwise.
\<close>

fun decimal :: "nat \<Rightarrow> string" where
  "decimal n =
     (if n < 10 then [''0123456789'' ! n]
      else decimal (n div 10) @ [''0123456789'' ! (n mod 10)])"

declare decimal.simps [simp del]

definition showCode :: "int option \<Rightarrow> string" where
  "showCode code =
     (case code of
        None \<Rightarrow> ''null''
      | Some n \<Rightarrow> (if n < 0 then CHR ''-'' # decimal (nat (- n)) else decimal (nat n)))"

text \<open>\<^verbatim>\<open>args.splice(start, deleteCount, ...items)\<close> for a start inside the array.\<close>

definition splice_js :: "'a list \<Rightarrow> nat \<Rightarrow> nat \<Rightarrow> 'a list \<Rightarrow> 'a list" where
  "splice_js xs start deleteCount items = take start xs @ items @ drop (start + deleteCount) xs"

section \<open>Identity resolution\<close>

text \<open>
  Lines 121 to 139 of \<^verbatim>\<open>handleMessage\<close>: the variable \<^verbatim>\<open>phone\<close> starts as
  \<^verbatim>\<open>null\<close> (here \<open>None\<close>) and is set from the conversation address alone.
\<close>

definition resolvePhone :: "string \<Rightarrow> string option" where
  "resolvePhone jid =
     (if endsWith jid ''@s.whatsapp.net''
        then Some (hd (split_str (replace_str jid ''@s.whatsapp.net'' '''') CHR '':''))
      else if endsWith jid ''@lid''
        then Some (replace_str jid ''@lid'' '''')
      else None)"

section \<open>Effects and asynchronous results\<close>

text \<open>
  A rejected promise and a thrown exception carry an \<^verbatim>\<open>Error\<close> object, of which
  only the message is kept.
\<close>

datatype js_error = Error string

text \<open>What a timer does when it fires: the two \<^verbatim>\<open>setTimeout\<close> callbacks of the service.\<close>

datatype timer_callback = KillAndReject | Reinitialize

text \<open>The events \<^verbatim>\<open>this.emit\<close> publishes.\<close>

datatype emitted = EmitQr string | EmitDisconnected string | EmitReady

text \<open>
  Everything the service does to the outside, in the order it is done: console output,
  calls on the transport socket, the subprocess and the timers.
\<close>

datatype effect =
    ConsoleLog string
  | ConsoleError string js_error
  | Emit emitted
  | MkdirAuthDir
  | UseMultiFileAuthState
  | MakeWASocket
  | EvOn string
  | SocketLogout
  | PresenceSubscribe string
  | SendPresenceUpdate string string
  | SocketSendMessage string string
  | Spawn string "string list" string
  | ChildKill
  | SetTimeout timer_callback nat

text \<open>
  An awaited call returns a value, throws, or never settles. An asynchronous function is
  the list of effects it performs together with that outcome.
\<close>

datatype 'a outcome = Returned 'a | Threw js_error | Pending

type_synonym 'a io = "effect list \<times> 'a outcome"

definition io_return :: "'a \<Rightarrow> 'a io" where
  "io_return x = ([], Returned x)"

definition io_throw :: "js_error \<Rightarrow> 'a io" where
  "io_throw e = ([], Threw e)"

definition io_do :: "effect \<Rightarrow> unit io" where
  "io_do e = ([e], Returned ())"

text \<open>Sequencing: the rest runs only after a normal return.\<close>

definition io_bind :: "'a io \<Rightarrow> ('a \<Rightarrow> 'b io) \<Rightarrow> 'b io" where
  "io_bind m f =
     (case m of
        (es, Returned x) \<Rightarrow> (case f x of (es', r) \<Rightarrow> (es @ es', r))
      | (es, Threw e) \<Rightarrow> (es, Threw e)
      | (es, Pending) \<Rightarrow> (es, Pending))"

text \<open>\<^verbatim>\<open>try { m } catch (err) { h err }\<close>.\<close>

definition io_catch :: "'a io \<Rightarrow> (js_error \<Rightarrow> 'a io) \<Rightarrow> 'a io" where
  "io_catch m h =
     (case m of
        (es, Threw e) \<Rightarrow> (case h e of (es', r) \<Rightarrow> (es @ es', r))
      | (es, Returned x) \<Rightarrow> (es, Returned x)
      | (es, Pending) \<Rightarrow> (es, Pending))"

section \<open>The service state\<close>

text \<open>
  The socket object of the transport library, as far as the service reads it: the
  identifier of the logged-in user, when there is one.
\<close>

record wasocket =
  user :: "string option"

text \<open>The result of the user lookup collaborator.\<close>

record user_ref =
  userId :: string
  projectId :: string

text \<open>
  The private fields of \<^verbatim>\<open>WhatsAppService\<close>. The two fields of \<^verbatim>\<open>status\<close> are
  \<open>connected\<close> and \<open>phoneNumber\<close>. A lookup that rejects is \<open>Inl\<close>; a collaborator that
  was never set is \<open>None\<close>.
\<close>

record service =
  socket :: "wasocket option"
  connected :: bool
  phoneNumber :: "string option"
  qrCode :: "string option"
  initializing :: bool
  onUserLookup :: "(string \<Rightarrow> js_error + user_ref option) option"
  onGetMcpConfig :: "(unit \<Rightarrow> string) option"

section \<open>The command dispatcher\<close>

text \<open>The system prompt of \<^verbatim>\<open>askClaude\<close>, lines 194 to 206.\<close>

definition systemPrompt :: "string \<Rightarrow> string \<Rightarrow> string" where
  "systemPrompt uid phone =
     ''You are a helpful assistant providing status updates on projects via WhatsApp.\<newline>'' @
     ''You have access to project-manager MCP tools to check project status, sessions, and activity.\<newline>'' @
     ''\<newline>'' @
     ''When asked about projects:\<newline>'' @
     ''- Use get_project_status to check specific project activity\<newline>'' @
     ''- Use list_projects to see all available projects\<newline>'' @
     ''- Use search_memory to find relevant information\<newline>'' @
     ''\<newline>'' @
     ''Keep responses concise for WhatsApp (under 1000 chars when possible).\<newline>'' @
     ''Use plain text formatting, no markdown.\<newline>'' @
     ''\<newline>'' @
     ''User ID: '' @ uid @ ''\<newline>'' @
     ''Phone: '' @ phone"

text \<open>Line 209: the path comes from the generator, and is empty without one.\<close>

definition mcpConfigPath :: "service \<Rightarrow> string" where
  "mcpConfigPath s = (case onGetMcpConfig s of None \<Rightarrow> '''' | Some gen \<Rightarrow> gen ())"

text \<open>Lines 212 to 223: the argument list handed to \<^verbatim>\<open>spawn\<close>.\<close>

definition askClaude_args :: "string \<Rightarrow> string \<Rightarrow> string \<Rightarrow> string list" where
  "askClaude_args question prompt path =
     (let args =
        [''--print'',
         ''--model'', ''sonnet'',
         ''--dangerously-skip-permissions'',
         ''--system-prompt'', prompt,
         ''--max-turns'', ''5'',
         ''--'', question]
      in if path \<noteq> '''' then splice_js args 4 0 [''--mcp-config'', path] else args)"

text \<open>
  The callbacks the event loop delivers to one dispatch, in the order of delivery: data
  on the two pipes, the \<^verbatim>\<open>close\<close> event with the exit code (\<^verbatim>\<open>null\<close> after a
  signal), the \<^verbatim>\<open>error\<close> event, and the timer of line 248.
\<close>

datatype callback =
    OnStdout string
  | OnStderr string
  | OnClose "int option"
  | OnError js_error
  | OnTimeout

text \<open>
  The variables of one dispatch: the two buffers, the promise (\<open>None\<close> while it is
  pending) and the number of \<^verbatim>\<open>child.kill()\<close> calls made.
\<close>

record dispatch =
  stdout :: string
  stderr :: string
  settled :: "(js_error + string) option"
  killCalls :: nat

definition spawned :: dispatch where
  "spawned = \<lparr>stdout = '''', stderr = '''', settled = None, killCalls = 0\<rparr>"

text \<open>A promise keeps its first settlement; later calls change nothing.\<close>

definition resolve :: "string \<Rightarrow> dispatch \<Rightarrow> dispatch" where
  "resolve v d = (case settled d of None \<Rightarrow> d\<lparr>settled := Some (Inr v)\<rparr> | Some r \<Rightarrow> d)"

definition reject :: "js_error \<Rightarrow> dispatch \<Rightarrow> dispatch" where
  "reject e d = (case settled d of None \<Rightarrow> d\<lparr>settled := Some (Inl e)\<rparr> | Some r \<Rightarrow> d)"

text \<open>Lines 234 to 251: one equation for each registered callback.\<close>

fun deliver :: "callback \<Rightarrow> dispatch \<Rightarrow> dispatch" where
  "deliver (OnStdout chunk) d = d\<lparr>stdout := stdout d @ chunk\<rparr>"
| "deliver (OnStderr chunk) d = d\<lparr>stderr := stderr d @ chunk\<rparr>"
| "deliver (OnClose code) d =
     (if code = Some 0 \<and> trim (stdout d) \<noteq> ''''
        then resolve (trim (stdout d)) d
      else reject (Error (if stderr d \<noteq> '''' then stderr d
                          else ''Claude exited with code '' @ showCode code)) d)"
| "deliver (OnError err) d = reject err d"
| "deliver OnTimeout d = reject (Error ''Request timed out'') (d\<lparr>killCalls := killCalls d + 1\<rparr>)"

text \<open>All callbacks of a run, delivered in order.\<close>

definition deliverAll :: "callback list \<Rightarrow> dispatch \<Rightarrow> dispatch" where
  "deliverAll cbs d = fold deliver cbs d"

text \<open>
  The caller that awaits the promise resumes when it settles: the callbacks up to the
  first that settles it.
\<close>

fun awaitSettled :: "dispatch \<Rightarrow> callback list \<Rightarrow> dispatch" where
  "awaitSettled d [] = d"
| "awaitSettled d (cb # cbs) = (if settled d \<noteq> None then d else awaitSettled (deliver cb d) cbs)"

text \<open>The timer of line 251 is set for 120000 ms.\<close>

definition timeoutMs :: nat where
  "timeoutMs = 120000"

text \<open>
  \<^verbatim>\<open>askClaude\<close>, awaited: the subprocess is spawned with \<^verbatim>\<open>USER_ID\<close> in its
  environment, the timer is set, and the callbacks of the run decide the outcome.
\<close>

definition askClaude :: "service \<Rightarrow> callback list \<Rightarrow> string \<Rightarrow> string \<Rightarrow> string \<Rightarrow> string io" where
  "askClaude s cbs question phone uid =
     (let args = askClaude_args question (systemPrompt uid phone) (mcpConfigPath s);
          d = awaitSettled spawned cbs
      in ([Spawn ''claude'' args uid, SetTimeout KillAndReject timeoutMs]
            @ replicate (killCalls d) ChildKill,
          case settled d of
            None \<Rightarrow> Pending
          | Some (Inl e) \<Rightarrow> Threw e
          | Some (Inr v) \<Rightarrow> Returned v))"

section \<open>The message router\<close>

text \<open>
  An inbound message, as far as \<^verbatim>\<open>handleMessage\<close> reads it: the address
  \<^verbatim>\<open>msg.key?.remoteJid\<close> and the two text fields of \<^verbatim>\<open>msg.message\<close>. A field
  that is \<^verbatim>\<open>null\<close> or \<^verbatim>\<open>undefined\<close> is \<open>None\<close>.
\<close>

record message_content =
  conversation :: "string option"
  extendedText :: "string option"

record web_message =
  remoteJid :: "string option"
  message :: "message_content option"

text \<open>\<^verbatim>\<open>a || b\<close> on strings: the empty string counts as absent.\<close>

definition orElse :: "string option \<Rightarrow> string \<Rightarrow> string" where
  "orElse a b = (case a of None \<Rightarrow> b | Some t \<Rightarrow> (if t = '''' then b else t))"

text \<open>Lines 145 to 147.\<close>

definition messageText :: "web_message \<Rightarrow> string" where
  "messageText msg =
     (case message msg of
        None \<Rightarrow> ''''
      | Some m \<Rightarrow> orElse (conversation m) (orElse (extendedText m) ''''))"

text \<open>
  The calls on the socket. \<^verbatim>\<open>this.socket?.f(...)\<close> does nothing when the socket is
  \<^verbatim>\<open>null\<close>, and \<^verbatim>\<open>sendMessage\<close> (lines 188 to 191) returns early in that case.
  The calls themselves are taken to complete.
\<close>

definition presenceSubscribe :: "service \<Rightarrow> string \<Rightarrow> unit io" where
  "presenceSubscribe s jid =
     (case socket s of None \<Rightarrow> io_return () | Some sock \<Rightarrow> io_do (PresenceSubscribe jid))"

definition sendPresenceUpdate :: "service \<Rightarrow> string \<Rightarrow> string \<Rightarrow> unit io" where
  "sendPresenceUpdate s presence jid =
     (case socket s of None \<Rightarrow> io_return () | Some sock \<Rightarrow> io_do (SendPresenceUpdate presence jid))"

definition sendMessage :: "service \<Rightarrow> string \<Rightarrow> string \<Rightarrow> unit io" where
  "sendMessage s jid text =
     (case socket s of None \<Rightarrow> io_return () | Some sock \<Rightarrow> io_do (SocketSendMessage jid text))"

text \<open>The two fixed replies, lines 167 and 184.\<close>

definition registrationText :: "string \<Rightarrow> string" where
  "registrationText phone =
     ''Your ID is not registered.\<newline>\<newline>Your WhatsApp ID: '' @ phone @
     ''\<newline>\<newline>Go to Settings > WhatsApp in OptimusHQ and enter this ID in the phone field, then save.''"

definition failureText :: string where
  "failureText = ''Sorry, I encountered an error. Please try again.''"

text \<open>
  Lines 155 to 164: the user id stays \<^verbatim>\<open>null\<close> without a lookup function or
  without a result.
\<close>

definition lookupUserId :: "service \<Rightarrow> string \<Rightarrow> string option io" where
  "lookupUserId s phone =
     (case onUserLookup s of
        None \<Rightarrow> io_return None
      | Some lookup \<Rightarrow>
          (case lookup phone of
             Inl e \<Rightarrow> io_throw e
           | Inr None \<Rightarrow> io_return None
           | Inr (Some result) \<Rightarrow> io_return (Some (userId result))))"

text \<open>Lines 171 to 181, for an authorized user.\<close>

definition replyWithClaude :: "service \<Rightarrow> callback list \<Rightarrow> string \<Rightarrow> string \<Rightarrow> string \<Rightarrow> string \<Rightarrow> unit io" where
  "replyWithClaude s cbs jid phone text uid =
     io_bind (presenceSubscribe s jid) (\<lambda>_.
     io_bind (sendPresenceUpdate s ''composing'' jid) (\<lambda>_.
     io_bind (askClaude s cbs text phone uid) (\<lambda>response.
     io_bind (sendPresenceUpdate s ''paused'' jid) (\<lambda>_.
     io_bind (sendMessage s jid response) (\<lambda>_.
     io_do (ConsoleLog (''[WhatsApp] Reply to '' @ phone @ '': '' @ take 100 response @ ''...'')))))))"

text \<open>Lines 153 to 181: the body of the \<^verbatim>\<open>try\<close> block.\<close>

definition tryBlock :: "service \<Rightarrow> callback list \<Rightarrow> string \<Rightarrow> string \<Rightarrow> string \<Rightarrow> unit io" where
  "tryBlock s cbs jid phone text =
     io_bind (lookupUserId s phone) (\<lambda>found.
       case found of
         None \<Rightarrow> sendMessage s jid (registrationText phone)
       | Some uid \<Rightarrow>
           (if uid = '''' then sendMessage s jid (registrationText phone)
            else replyWithClaude s cbs jid phone text uid))"

text \<open>Lines 182 to 185: the \<^verbatim>\<open>catch\<close> block.\<close>

definition catchBlock :: "service \<Rightarrow> string \<Rightarrow> js_error \<Rightarrow> unit io" where
  "catchBlock s jid err =
     io_bind (io_do (ConsoleError ''[WhatsApp] Error handling message:'' err)) (\<lambda>_.
     sendMessage s jid failureText)"

text \<open>
  \<^verbatim>\<open>handleMessage\<close>, lines 117 to 186. The second argument is the run of the
  subprocess, should one be spawned. The fields of the service are read as they are at
  the call; what other handlers do to them while the call is suspended is left out.
\<close>

definition handleMessage :: "service \<Rightarrow> callback list \<Rightarrow> web_message \<Rightarrow> unit io" where
  "handleMessage s cbs msg =
     (case remoteJid msg of
        None \<Rightarrow> io_return ()
      | Some jid \<Rightarrow>
          (if jid = '''' \<or> includes_str jid ''@g.us'' then io_return ()
           else
             io_bind
               (if \<not> endsWith jid ''@s.whatsapp.net'' \<and> endsWith jid ''@lid''
                  then io_do (ConsoleLog (''[WhatsApp] LID message from '' @ replace_str jid ''@lid'' ''''
                                          @ '', looking up by LID''))
                else io_return ())
               (\<lambda>_.
                  case resolvePhone jid of
                    None \<Rightarrow> io_do (ConsoleLog (''[WhatsApp] Could not extract phone from jid: '' @ jid))
                  | Some phone \<Rightarrow>
                      (if phone = ''''
                         then io_do (ConsoleLog (''[WhatsApp] Could not extract phone from jid: '' @ jid))
                       else if messageText msg = '''' then io_return ()
                       else
                         io_bind (io_do (ConsoleLog (''[WhatsApp] Message from '' @ phone @ '': ''
                                                     @ messageText msg))) (\<lambda>_.
                         io_catch (tryBlock s cbs jid phone (messageText msg)) (catchBlock s jid))))))"

section \<open>The session supervisor\<close>

text \<open>
  \<^verbatim>\<open>initialize\<close>, lines 48 to 115, is asynchronous with one suspension point, the
  \<^verbatim>\<open>await\<close> of line 59. The part before it runs at the call; \<open>True\<close> in the result
  says that the call goes on after the suspension, \<open>False\<close> that it has returned.
  The argument says whether the credentials directory exists.
\<close>

definition initialize_enter :: "bool \<Rightarrow> service \<Rightarrow> effect list \<times> service \<times> bool" where
  "initialize_enter authDirExists s =
     (if socket s \<noteq> None \<or> initializing s then ([], s, False)
      else
        (ConsoleLog ''[WhatsApp] Initializing with Baileys...''
           # (if \<not> authDirExists then [MkdirAuthDir] else [])
           @ [UseMultiFileAuthState],
         s\<lparr>initializing := True\<rparr>,
         True))"

text \<open>
  The part after the suspension, lines 61 to 114. The argument is the socket object that
  \<^verbatim>\<open>makeWASocket\<close> returns.
\<close>

definition initialize_resume :: "wasocket \<Rightarrow> service \<Rightarrow> effect list \<times> service" where
  "initialize_resume sock s =
     ([MakeWASocket, EvOn ''creds.update'', EvOn ''connection.update'', EvOn ''messages.upsert''],
      s\<lparr>socket := Some sock, initializing := False\<rparr>)"

text \<open>A call of \<^verbatim>\<open>initialize\<close> that nothing else interleaves with.\<close>

definition initialize :: "bool \<Rightarrow> wasocket \<Rightarrow> service \<Rightarrow> effect list \<times> service" where
  "initialize authDirExists sock s =
     (case initialize_enter authDirExists s of
        (es, s', False) \<Rightarrow> (es, s')
      | (es, s', True) \<Rightarrow> (case initialize_resume sock s' of (es', s'') \<Rightarrow> (es @ es', s'')))"

text \<open>
  A \<^verbatim>\<open>connection.update\<close> event, as far as the handler of lines 68 to 103 reads it:
  \<open>statusCode\<close> is \<^verbatim>\<open>lastDisconnect?.error?.output?.statusCode\<close> and
  \<open>errorMessage\<close> is \<^verbatim>\<open>lastDisconnect?.error?.message\<close>.
\<close>

record connection_update =
  connection :: "string option"
  statusCode :: "int option"
  errorMessage :: "string option"
  qr :: "string option"

text \<open>Line 78. The constant \<^verbatim>\<open>DisconnectReason.loggedOut\<close> of the library is a parameter.\<close>

definition shouldReconnect :: "int \<Rightarrow> connection_update \<Rightarrow> bool" where
  "shouldReconnect loggedOut u = (statusCode u \<noteq> Some loggedOut)"

text \<open>Lines 71 to 75.\<close>

definition onQr :: "connection_update \<Rightarrow> service \<Rightarrow> effect list \<times> service" where
  "onQr u s =
     (case qr u of
        None \<Rightarrow> ([], s)
      | Some code \<Rightarrow>
          (if code = '''' then ([], s)
           else ([ConsoleLog ''[WhatsApp] QR code received'', Emit (EmitQr code)],
                 s\<lparr>qrCode := Some code\<rparr>)))"

text \<open>Lines 77 to 89.\<close>

definition onClose :: "int \<Rightarrow> connection_update \<Rightarrow> service \<Rightarrow> effect list \<times> service" where
  "onClose loggedOut u s =
     (let s1 = s\<lparr>connected := False, phoneNumber := None\<rparr>;
          es = [ConsoleLog (''[WhatsApp] Connection closed, reconnect: ''
                            @ (if shouldReconnect loggedOut u then ''true'' else ''false'')),
                Emit (EmitDisconnected (orElse (errorMessage u) ''Connection closed''))]
      in if shouldReconnect loggedOut u
           then (es @ [SetTimeout Reinitialize 3000], s1\<lparr>socket := None, initializing := False\<rparr>)
         else (es, s1))"

text \<open>Lines 90 to 102.\<close>

definition onOpen :: "service \<Rightarrow> effect list \<times> service" where
  "onOpen s =
     (let s1 = s\<lparr>connected := True, qrCode := None\<rparr>;
          s2 = (case socket s1 of
                  None \<Rightarrow> s1
                | Some sock \<Rightarrow>
                    (case user sock of
                       None \<Rightarrow> s1
                     | Some uid \<Rightarrow>
                         s1\<lparr>phoneNumber :=
                              Some (hd (split_str (hd (split_str uid CHR '':'')) CHR ''@''))\<rparr>))
      in ([ConsoleLog ''[WhatsApp] Connected'', Emit EmitReady], s2))"

text \<open>The handler of \<^verbatim>\<open>connection.update\<close>, lines 68 to 103.\<close>

definition onConnectionUpdate :: "int \<Rightarrow> connection_update \<Rightarrow> service \<Rightarrow> effect list \<times> service" where
  "onConnectionUpdate loggedOut u s =
     (case onQr u s of (es, s1) \<Rightarrow>
        (if connection u = Some ''close''
           then (case onClose loggedOut u s1 of (es', s2) \<Rightarrow> (es @ es', s2))
         else if connection u = Some ''open''
           then (case onOpen s1 of (es', s2) \<Rightarrow> (es @ es', s2))
         else (es, s1)))"

text \<open>\<^verbatim>\<open>disconnect\<close>, lines 255 to 263.\<close>

definition disconnect :: "service \<Rightarrow> effect list \<times> service" where
  "disconnect s =
     ((case socket s of None \<Rightarrow> [] | Some sock \<Rightarrow> [SocketLogout]),
      s\<lparr>socket := None, connected := False, phoneNumber := None, qrCode := None,
        initializing := False\<rparr>)"

text \<open>The service as constructed, lines 25 to 30.\<close>

definition newService :: service where
  "newService =
     \<lparr>socket = None, connected = False, phoneNumber = None, qrCode = None,
      initializing = False, onUserLookup = None, onGetMcpConfig = None\<rparr>"

section \<open>Vocabulary for the properties\<close>

text \<open>Callbacks that only fill a buffer, and what a run has written to each pipe.\<close>

fun isData :: "callback \<Rightarrow> bool" where
  "isData (OnStdout chunk) = True"
| "isData (OnStderr chunk) = True"
| "isData cb = False"

fun stdoutOf :: "callback list \<Rightarrow> string" where
  "stdoutOf [] = ''''"
| "stdoutOf (OnStdout chunk # cbs) = chunk @ stdoutOf cbs"
| "stdoutOf (cb # cbs) = stdoutOf cbs"

fun stderrOf :: "callback list \<Rightarrow> string" where
  "stderrOf [] = ''''"
| "stderrOf (OnStderr chunk # cbs) = chunk @ stderrOf cbs"
| "stderrOf (cb # cbs) = stderrOf cbs"

text \<open>Whether the \<^verbatim>\<open>close\<close> event of the subprocess is among the callbacks of a run.\<close>

fun isClose :: "callback \<Rightarrow> bool" where
  "isClose (OnClose code) = True"
| "isClose cb = False"

definition exitObserved :: "callback list \<Rightarrow> bool" where
  "exitObserved cbs = list_ex isClose cbs"

text \<open>
  Whether a text names an exit code the way a template literal prints it: the word
  \<^verbatim>\<open>null\<close> for no code, otherwise the decimal numeral of the code, without leading
  zeros and with a minus sign in front for a negative code.
\<close>

definition isDigit :: "char \<Rightarrow> bool" where
  "isDigit c = (c \<in> set ''0123456789'')"

definition digitValue :: "char \<Rightarrow> nat" where
  "digitValue c = length (takeWhile (\<lambda>d. d \<noteq> c) ''0123456789'')"

definition readDecimal :: "string \<Rightarrow> nat" where
  "readDecimal ds = foldl (\<lambda>n c. 10 * n + digitValue c) 0 ds"

definition isNumeral :: "string \<Rightarrow> bool" where
  "isNumeral ds = (ds \<noteq> [] \<and> list_all isDigit ds \<and> (hd ds = CHR ''0'' \<longrightarrow> length ds = 1))"

definition namesCode :: "string \<Rightarrow> int option \<Rightarrow> bool" where
  "namesCode t code =
     (case code of
        None \<Rightarrow> t = ''null''
      | Some n \<Rightarrow>
          (if n < 0
             then (case t of [] \<Rightarrow> False
                   | c # ds \<Rightarrow> c = CHR ''-'' \<and> isNumeral ds \<and> int (readDecimal ds) = - n)
           else isNumeral t \<and> int (readDecimal t) = n))"

text \<open>The texts handed to the transport, the timers set and the subprocesses spawned.\<close>

fun sentMessages :: "effect list \<Rightarrow> (string \<times> string) list" where
  "sentMessages [] = []"
| "sentMessages (SocketSendMessage jid text # es) = (jid, text) # sentMessages es"
| "sentMessages (e # es) = sentMessages es"

fun timersSet :: "effect list \<Rightarrow> (timer_callback \<times> nat) list" where
  "timersSet [] = []"
| "timersSet (SetTimeout cb ms # es) = (cb, ms) # timersSet es"
| "timersSet (e # es) = timersSet es"

fun spawnCount :: "effect list \<Rightarrow> nat" where
  "spawnCount [] = 0"
| "spawnCount (Spawn cmd args uid # es) = Suc (spawnCount es)"
| "spawnCount (e # es) = spawnCount es"

fun socketsMade :: "effect list \<Rightarrow> nat" where
  "socketsMade [] = 0"
| "socketsMade (MakeWASocket # es) = Suc (socketsMade es)"
| "socketsMade (e # es) = socketsMade es"

text \<open>Calls on the transport socket.\<close>

fun isSocketCall :: "effect \<Rightarrow> bool" where
  "isSocketCall (PresenceSubscribe jid) = True"
| "isSocketCall (SendPresenceUpdate presence jid) = True"
| "isSocketCall (SocketSendMessage jid text) = True"
| "isSocketCall SocketLogout = True"
| "isSocketCall e = False"

definition noSocketCalls :: "'a io \<Rightarrow> bool" where
  "noSocketCalls m = (\<forall>e\<in>set (fst m). \<not> isSocketCall e)"

text \<open>
  A message passes the filters of lines 118 to 149 when it has an address that is not a
  group address, an identifier resolved from it, and a text; \<open>jid\<close> and \<open>phone\<close> name the
  address and the identifier.
\<close>

definition passesFilters :: "web_message \<Rightarrow> string \<Rightarrow> string \<Rightarrow> bool" where
  "passesFilters msg jid phone =
     (remoteJid msg = Some jid \<and> jid \<noteq> '''' \<and> \<not> includes_str jid ''@g.us''
      \<and> resolvePhone jid = Some phone \<and> phone \<noteq> '''' \<and> messageText msg \<noteq> '''')"

text \<open>What \<^verbatim>\<open>handleMessage\<close> has done when it enters the \<^verbatim>\<open>try\<close> block.\<close>

definition entryLog :: "web_message \<Rightarrow> string \<Rightarrow> string \<Rightarrow> effect list" where
  "entryLog msg jid phone =
     (if \<not> endsWith jid ''@s.whatsapp.net'' \<and> endsWith jid ''@lid''
        then [ConsoleLog (''[WhatsApp] LID message from '' @ replace_str jid ''@lid'' ''''
                          @ '', looking up by LID'')]
      else [])
     @ [ConsoleLog (''[WhatsApp] Message from '' @ phone @ '': '' @ messageText msg)]"

text \<open>
  Concrete inputs for the examples: a text message from an address, a lookup that knows one
  identifier, and a service with a socket and that lookup.
\<close>

definition textMessage :: "string \<Rightarrow> string \<Rightarrow> web_message" where
  "textMessage jid text =
     \<lparr>remoteJid = Some jid, message = Some \<lparr>conversation = Some text, extendedText = None\<rparr>\<rparr>"

definition registeredOnly :: "string \<Rightarrow> string \<Rightarrow> string \<Rightarrow> js_error + user_ref option" where
  "registeredOnly phone uid p =
     (if p = phone then Inr (Some \<lparr>userId = uid, projectId = ''p1''\<rparr>) else Inr None)"

definition connectedService :: "(string \<Rightarrow> js_error + user_ref option) \<Rightarrow> service" where
  "connectedService lookup =
     newService\<lparr>socket := Some \<lparr>user = Some ''15550001111:1@s.whatsapp.net''\<rparr>,
                connected := True, onUserLookup := Some lookup\<rparr>"

section \<open>The promise of a dispatch\<close>

lemma settled_deliver_keep: "settled d \<noteq> None \<Longrightarrow> settled (deliver cb d) = settled d"
  by (cases cb) (auto simp: resolve_def reject_def)

lemma settled_fold_keep: "settled d \<noteq> None \<Longrightarrow> settled (fold deliver cbs d) = settled d"
  by (induction cbs arbitrary: d) (simp_all add: settled_deliver_keep)

lemma awaitSettled_done: "settled d \<noteq> None \<Longrightarrow> awaitSettled d cbs = d"
  by (cases cbs) simp_all

lemma settled_awaitSettled: "settled (awaitSettled d cbs) = settled (deliverAll cbs d)"
proof (induction cbs arbitrary: d)
  case Nil
  then show ?case by (simp add: deliverAll_def)
next
  case (Cons cb cbs)
  then show ?case by (simp add: deliverAll_def settled_fold_keep settled_deliver_keep)
qed

lemma fold_deliver_data:
  "\<forall>cb\<in>set pre. isData cb \<Longrightarrow>
   fold deliver pre d = d\<lparr>stdout := stdout d @ stdoutOf pre, stderr := stderr d @ stderrOf pre\<rparr>"
proof (induction pre arbitrary: d)
  case Nil
  then show ?case by simp
next
  case (Cons cb pre)
  then show ?case by (cases cb) simp_all
qed

lemma awaitSettled_data:
  "\<forall>cb\<in>set pre. isData cb \<Longrightarrow> settled d = None \<Longrightarrow>
   awaitSettled d (pre @ rest) = awaitSettled (fold deliver pre d) rest"
proof (induction pre arbitrary: d)
  case Nil
  then show ?case by simp
next
  case (Cons cb pre)
  then show ?case by (cases cb) simp_all
qed

lemma settled_fold_None:
  "(settled (fold deliver cbs d) = None) = (settled d = None \<and> (\<forall>cb\<in>set cbs. isData cb))"
proof (induction cbs arbitrary: d)
  case Nil
  then show ?case by simp
next
  case (Cons cb cbs)
  then show ?case by (cases cb) (auto simp: resolve_def reject_def split: option.splits)
qed

lemma settled_deliver_first:
  "settled d = None \<Longrightarrow> \<not> isData cb \<Longrightarrow> settled (deliver cb d) \<noteq> None"
  by (cases cb) (auto simp: resolve_def reject_def)

lemma awaitSettled_first:
  assumes "\<forall>c\<in>set pre. isData c" and "\<not> isData cb"
  shows "awaitSettled spawned (pre @ cb # post) = deliver cb (fold deliver pre spawned)"
proof -
  have pend: "settled (fold deliver pre spawned) = None"
    using assms(1) by (simp add: settled_fold_None spawned_def)
  have "awaitSettled spawned (pre @ cb # post) = awaitSettled (fold deliver pre spawned) (cb # post)"
    using assms(1) by (simp add: awaitSettled_data spawned_def)
  also have "\<dots> = awaitSettled (deliver cb (fold deliver pre spawned)) post"
    using pend by simp
  also have "\<dots> = deliver cb (fold deliver pre spawned)"
    using settled_deliver_first[OF pend assms(2)] by (rule awaitSettled_done)
  finally show ?thesis .
qed

lemma fold_deliver_spawned:
  "\<forall>c\<in>set pre. isData c \<Longrightarrow>
   fold deliver pre spawned = \<lparr>stdout = stdoutOf pre, stderr = stderrOf pre, settled = None, killCalls = 0\<rparr>"
  by (simp add: fold_deliver_data spawned_def)

lemma awaitSettled_pending:
  "\<forall>c\<in>set cbs. isData c \<Longrightarrow> settled (awaitSettled spawned cbs) = None"
  by (simp add: settled_awaitSettled deliverAll_def settled_fold_None spawned_def)

lemma askClaude_outcome:
  "snd (askClaude s cbs question phone uid) =
     (case settled (awaitSettled spawned cbs) of
        None \<Rightarrow> Pending | Some (Inl e) \<Rightarrow> Threw e | Some (Inr v) \<Rightarrow> Returned v)"
  by (simp add: askClaude_def Let_def)

lemma askClaude_on_close:
  assumes "\<forall>c\<in>set pre. isData c"
  shows "snd (askClaude s (pre @ OnClose code # post) question phone uid) =
     (if code = Some 0 \<and> trim (stdoutOf pre) \<noteq> '''' then Returned (trim (stdoutOf pre))
      else Threw (Error (if stderrOf pre \<noteq> '''' then stderrOf pre
                         else ''Claude exited with code '' @ showCode code)))"
  using assms
  by (simp add: askClaude_outcome awaitSettled_first fold_deliver_spawned resolve_def reject_def)

lemma askClaude_on_error:
  assumes "\<forall>c\<in>set pre. isData c"
  shows "snd (askClaude s (pre @ OnError err # post) question phone uid) = Threw err"
  using assms
  by (simp add: askClaude_outcome awaitSettled_first fold_deliver_spawned reject_def)

lemma askClaude_on_timeout:
  assumes "\<forall>c\<in>set pre. isData c"
  shows "askClaude s (pre @ OnTimeout # post) question phone uid =
     ([Spawn ''claude'' (askClaude_args question (systemPrompt uid phone) (mcpConfigPath s)) uid,
       SetTimeout KillAndReject 120000, ChildKill],
      Threw (Error ''Request timed out''))"
  using assms
  by (simp add: askClaude_def Let_def awaitSettled_first fold_deliver_spawned reject_def timeoutMs_def)

lemma first_non_data:
  assumes "\<not> (\<forall>c\<in>set cbs. isData c)"
  shows "\<exists>pre cb post. cbs = pre @ cb # post \<and> (\<forall>c\<in>set pre. isData c) \<and> \<not> isData cb"
proof -
  from assms have "\<exists>c\<in>set cbs. \<not> isData c" by simp
  from split_list_first_prop[OF this] show ?thesis by blast
qed

lemma digit_nth:
  assumes "k < 10"
  shows "isDigit (''0123456789'' ! k)" and "digitValue (''0123456789'' ! k) = k"
    and "(''0123456789'' ! k = CHR ''0'') = (k = 0)"
proof -
  from assms have "k = 0 \<or> k = 1 \<or> k = 2 \<or> k = 3 \<or> k = 4 \<or> k = 5 \<or> k = 6 \<or> k = 7 \<or> k = 8 \<or> k = 9"
    by arith
  then show "isDigit (''0123456789'' ! k)" and "digitValue (''0123456789'' ! k) = k"
    and "(''0123456789'' ! k = CHR ''0'') = (k = 0)"
    by (auto simp: isDigit_def digitValue_def)
qed

lemma readDecimal_snoc: "readDecimal (ds @ [c]) = 10 * readDecimal ds + digitValue c"
  by (simp add: readDecimal_def)

lemma decimal_nonempty: "decimal n \<noteq> []"
  by (subst decimal.simps) simp

lemma decimal_digits: "list_all isDigit (decimal n)"
proof (induction n rule: decimal.induct)
  case (1 n)
  show ?case
  proof (cases "n < 10")
    case True
    then show ?thesis by (subst decimal.simps) (simp add: digit_nth)
  next
    case False
    then show ?thesis using 1 by (subst decimal.simps) (simp add: digit_nth)
  qed
qed

lemma readDecimal_decimal: "readDecimal (decimal n) = n"
proof (induction n rule: decimal.induct)
  case (1 n)
  show ?case
  proof (cases "n < 10")
    case True
    then show ?thesis by (subst decimal.simps) (simp add: readDecimal_def digit_nth)
  next
    case False
    then have "readDecimal (decimal n) = 10 * readDecimal (decimal (n div 10)) + digitValue (''0123456789'' ! (n mod 10))"
      by (subst decimal.simps) (simp add: readDecimal_snoc)
    with False 1 show ?thesis by (simp add: digit_nth)
  qed
qed

lemma hd_decimal_zero: "hd (decimal n) = CHR ''0'' \<Longrightarrow> n = 0"
proof (induction n rule: decimal.induct)
  case (1 n)
  show ?case
  proof (cases "n < 10")
    case True
    with 1(2) show ?thesis by (subst (asm) decimal.simps) (simp add: digit_nth)
  next
    case False
    with 1(2) have "hd (decimal (n div 10)) = CHR ''0''"
      by (subst (asm) decimal.simps) (simp add: decimal_nonempty)
    with 1(1) False have "n div 10 = 0" by simp
    with False show ?thesis by simp
  qed
qed

lemma isNumeral_decimal: "isNumeral (decimal n)"
proof -
  have "hd (decimal n) = CHR ''0'' \<longrightarrow> length (decimal n) = 1"
  proof
    assume "hd (decimal n) = CHR ''0''"
    then have "n = 0" by (rule hd_decimal_zero)
    then show "length (decimal n) = 1" by (simp add: decimal.simps)
  qed
  then show ?thesis by (simp add: isNumeral_def decimal_nonempty decimal_digits)
qed

lemma namesCode_showCode: "namesCode (showCode code) code"
proof (cases code)
  case None
  then show ?thesis by (simp add: namesCode_def showCode_def)
next
  case (Some n)
  then show ?thesis
    by (simp add: namesCode_def showCode_def isNumeral_decimal readDecimal_decimal)
qed

lemma trim_decompose:
  assumes "trim t \<noteq> []"
  shows "\<exists>l r. t = l @ trim t @ r \<and> list_all isWhiteSpace l \<and> list_all isWhiteSpace r
           \<and> \<not> isWhiteSpace (hd (trim t)) \<and> \<not> isWhiteSpace (last (trim t))"
proof -
  define l where "l = takeWhile isWhiteSpace t"
  define m where "m = dropWhile isWhiteSpace t"
  define r where "r = rev (takeWhile isWhiteSpace (rev m))"
  have t: "t = l @ m" by (simp add: l_def m_def)
  have tr: "trim t = rev (dropWhile isWhiteSpace (rev m))" by (simp add: trim_def m_def)
  have "rev m = takeWhile isWhiteSpace (rev m) @ dropWhile isWhiteSpace (rev m)" by simp
  then have "m = rev (dropWhile isWhiteSpace (rev m)) @ rev (takeWhile isWhiteSpace (rev m))"
    by (metis rev_append rev_rev_ident)
  then have m: "m = trim t @ r" by (simp add: tr r_def)
  have wl: "list_all isWhiteSpace l"
    by (simp add: l_def list_all_iff) (metis set_takeWhileD)
  have wr: "list_all isWhiteSpace r"
    by (simp add: r_def list_all_iff) (metis set_takeWhileD)
  have ne: "dropWhile isWhiteSpace (rev m) \<noteq> []" using assms tr by simp
  have "\<not> isWhiteSpace (hd (dropWhile isWhiteSpace (rev m)))"
    using ne by (rule hd_dropWhile)
  then have la: "\<not> isWhiteSpace (last (trim t))"
    using ne by (simp add: tr last_rev)
  have mne: "m \<noteq> []" using m assms by auto
  then have "\<not> isWhiteSpace (hd m)" unfolding m_def by (rule hd_dropWhile)
  then have hd: "\<not> isWhiteSpace (hd (trim t))" using m assms by (metis hd_append2)
  from t m wl wr hd la show ?thesis by auto
qed

lemma trim_empty: "(trim t = []) = list_all isWhiteSpace t"
proof -
  have "(trim t = []) = (\<forall>x\<in>set (dropWhile isWhiteSpace t). isWhiteSpace x)"
    by (simp add: trim_def dropWhile_eq_Nil_conv)
  also have "\<dots> = (dropWhile isWhiteSpace t = [])"
  proof
    assume all: "\<forall>x\<in>set (dropWhile isWhiteSpace t). isWhiteSpace x"
    show "dropWhile isWhiteSpace t = []"
    proof (rule ccontr)
      assume ne: "dropWhile isWhiteSpace t \<noteq> []"
      then have "\<not> isWhiteSpace (hd (dropWhile isWhiteSpace t))" by (rule hd_dropWhile)
      moreover have "hd (dropWhile isWhiteSpace t) \<in> set (dropWhile isWhiteSpace t)"
        using ne by (rule hd_in_set)
      ultimately show False using all by blast
    qed
  next
    assume "dropWhile isWhiteSpace t = []"
    then show "\<forall>x\<in>set (dropWhile isWhiteSpace t). isWhiteSpace x"
      by (auto dest: set_dropWhileD)
  qed
  also have "\<dots> = (\<forall>x\<in>set t. isWhiteSpace x)"
    by (simp add: dropWhile_eq_Nil_conv)
  finally show ?thesis by (simp add: list_all_iff)
qed

lemma trim_unique:
  assumes "t = l @ v @ r" and "list_all isWhiteSpace l" and "list_all isWhiteSpace r"
    and "v \<noteq> []" and "\<not> isWhiteSpace (hd v)" and "\<not> isWhiteSpace (last v)"
  shows "trim t = v"
proof -
  have "dropWhile isWhiteSpace (l @ v @ r) = dropWhile isWhiteSpace (v @ r)"
    using assms(2) by (intro dropWhile_append2) (simp add: list_all_iff)
  then have "dropWhile isWhiteSpace t = dropWhile isWhiteSpace (v @ r)"
    using assms(1) by simp
  also have "\<dots> = v @ r"
    using assms(4,5) by (cases v) simp_all
  finally have a: "dropWhile isWhiteSpace t = v @ r" .
  have "dropWhile isWhiteSpace (rev r @ rev v) = dropWhile isWhiteSpace (rev v)"
    using assms(3) by (intro dropWhile_append2) (simp add: list_all_iff)
  also have "\<dots> = rev v"
    using assms(4,6) by (cases "rev v") (auto simp: last_rev[symmetric] hd_rev)
  finally show ?thesis by (simp add: trim_def a)
qed

lemma trimmed_iff:
  "(trim t \<noteq> '''' \<and> v = trim t) =
     (\<exists>l r. t = l @ v @ r \<and> list_all isWhiteSpace l \<and> list_all isWhiteSpace r
        \<and> v \<noteq> '''' \<and> \<not> isWhiteSpace (hd v) \<and> \<not> isWhiteSpace (last v))"
proof
  assume "trim t \<noteq> '''' \<and> v = trim t"
  then show "\<exists>l r. t = l @ v @ r \<and> list_all isWhiteSpace l \<and> list_all isWhiteSpace r
        \<and> v \<noteq> '''' \<and> \<not> isWhiteSpace (hd v) \<and> \<not> isWhiteSpace (last v)"
    using trim_decompose[of t] by auto
next
  assume "\<exists>l r. t = l @ v @ r \<and> list_all isWhiteSpace l \<and> list_all isWhiteSpace r
        \<and> v \<noteq> '''' \<and> \<not> isWhiteSpace (hd v) \<and> \<not> isWhiteSpace (last v)"
  then obtain l r where "t = l @ v @ r" "list_all isWhiteSpace l" "list_all isWhiteSpace r"
    "v \<noteq> ''''" "\<not> isWhiteSpace (hd v)" "\<not> isWhiteSpace (last v)" by blast
  then have "trim t = v" by (rule trim_unique)
  with \<open>v \<noteq> ''''\<close> show "trim t \<noteq> '''' \<and> v = trim t" by simp
qed

lemma askClaude_returned_iff:
  "(snd (askClaude s cbs question phone uid) = Returned v) =
      (\<exists>pre post. cbs = pre @ OnClose (Some 0) # post \<and> (\<forall>c\<in>set pre. isData c)
          \<and> trim (stdoutOf pre) \<noteq> '''' \<and> v = trim (stdoutOf pre))"
proof
  assume ok: "snd (askClaude s cbs question phone uid) = Returned v"
  have "\<not> (\<forall>c\<in>set cbs. isData c)"
  proof
    assume "\<forall>c\<in>set cbs. isData c"
    then have "snd (askClaude s cbs question phone uid) = Pending"
      by (simp add: askClaude_outcome awaitSettled_pending)
    with ok show False by simp
  qed
  from first_non_data[OF this] obtain pre cb post
    where split: "cbs = pre @ cb # post" and pre: "\<forall>c\<in>set pre. isData c" and cb: "\<not> isData cb"
    by blast
  show "\<exists>pre post. cbs = pre @ OnClose (Some 0) # post \<and> (\<forall>c\<in>set pre. isData c)
          \<and> trim (stdoutOf pre) \<noteq> '''' \<and> v = trim (stdoutOf pre)"
  proof (cases cb)
    case (OnClose code)
    with ok split pre have "code = Some 0 \<and> trim (stdoutOf pre) \<noteq> '''' \<and> v = trim (stdoutOf pre)"
      by (simp add: askClaude_on_close split: if_splits)
    with split pre OnClose show ?thesis by blast
  next
    case (OnError err)
    with ok split pre show ?thesis by (simp add: askClaude_on_error)
  next
    case OnTimeout
    with ok split pre show ?thesis by (simp add: askClaude_on_timeout)
  qed (use cb in simp_all)
next
  assume "\<exists>pre post. cbs = pre @ OnClose (Some 0) # post \<and> (\<forall>c\<in>set pre. isData c)
          \<and> trim (stdoutOf pre) \<noteq> '''' \<and> v = trim (stdoutOf pre)"
  then show "snd (askClaude s cbs question phone uid) = Returned v"
    by (auto simp: askClaude_on_close)
qed

lemma spawnCount_replicate_kill: "spawnCount (replicate n ChildKill) = 0"
  by (induction n) simp_all

section \<open>The paths through the router\<close>

lemma sendMessage_cases:
  "sendMessage s jid text = ((if socket s = None then [] else [SocketSendMessage jid text]), Returned ())"
  by (simp add: sendMessage_def io_return_def io_do_def split: option.splits)

lemma presenceSubscribe_cases:
  "presenceSubscribe s jid = ((if socket s = None then [] else [PresenceSubscribe jid]), Returned ())"
  by (simp add: presenceSubscribe_def io_return_def io_do_def split: option.splits)

lemma sendPresenceUpdate_cases:
  "sendPresenceUpdate s presence jid =
     ((if socket s = None then [] else [SendPresenceUpdate presence jid]), Returned ())"
  by (simp add: sendPresenceUpdate_def io_return_def io_do_def split: option.splits)

lemma fst_lookupUserId: "fst (lookupUserId s phone) = []"
  by (simp add: lookupUserId_def io_return_def io_throw_def split: option.splits sum.splits)

lemma handleMessage_passes:
  assumes "passesFilters msg jid phone"
  shows "handleMessage s cbs msg =
     (case io_catch (tryBlock s cbs jid phone (messageText msg)) (catchBlock s jid) of
        (es, r) \<Rightarrow> (entryLog msg jid phone @ es, r))"
  using assms
  by (simp add: handleMessage_def passesFilters_def entryLog_def io_bind_def io_do_def
      io_return_def split: prod.splits)


lemma tryBlock_registered:
  assumes "snd (lookupUserId s phone) = Returned (Some uid)" and "uid \<noteq> ''''"
  shows "tryBlock s cbs jid phone text = replyWithClaude s cbs jid phone text uid"
proof -
  have "lookupUserId s phone = ([], Returned (Some uid))"
    using assms fst_lookupUserId[of s phone] by (cases "lookupUserId s phone") simp
  then show ?thesis
    using assms(2) by (cases "replyWithClaude s cbs jid phone text uid") (simp add: tryBlock_def io_bind_def)
qed

lemma replyWithClaude_threw:
  assumes "snd (askClaude s cbs text phone uid) = Threw err"
  shows "replyWithClaude s cbs jid phone text uid =
     (fst (presenceSubscribe s jid) @ fst (sendPresenceUpdate s ''composing'' jid)
        @ fst (askClaude s cbs text phone uid),
      Threw err)"
  using assms
  by (cases "askClaude s cbs text phone uid")
     (simp add: replyWithClaude_def io_bind_def presenceSubscribe_cases sendPresenceUpdate_cases)

lemma replyWithClaude_returned:
  assumes "snd (askClaude s cbs text phone uid) = Returned response"
  shows "replyWithClaude s cbs jid phone text uid =
     (fst (presenceSubscribe s jid) @ fst (sendPresenceUpdate s ''composing'' jid)
        @ fst (askClaude s cbs text phone uid)
        @ fst (sendPresenceUpdate s ''paused'' jid)
        @ fst (sendMessage s jid response)
        @ [ConsoleLog (''[WhatsApp] Reply to '' @ phone @ '': '' @ take 100 response @ ''...'')],
      Returned ())"
  using assms
  by (cases "askClaude s cbs text phone uid")
     (simp add: replyWithClaude_def io_bind_def io_do_def presenceSubscribe_cases
        sendPresenceUpdate_cases sendMessage_cases)

lemma catchBlock_eq:
  "catchBlock s jid err =
     (ConsoleError ''[WhatsApp] Error handling message:'' err # fst (sendMessage s jid failureText),
      Returned ())"
  by (simp add: catchBlock_def io_bind_def io_do_def sendMessage_cases)


lemma handleMessage_failed:
  assumes "passesFilters msg jid phone"
    and "snd (lookupUserId s phone) = Returned (Some uid)" and "uid \<noteq> ''''"
    and "snd (askClaude s cbs (messageText msg) phone uid) = Threw err"
  shows "handleMessage s cbs msg =
     (entryLog msg jid phone
        @ fst (presenceSubscribe s jid) @ fst (sendPresenceUpdate s ''composing'' jid)
        @ fst (askClaude s cbs (messageText msg) phone uid)
        @ [ConsoleError ''[WhatsApp] Error handling message:'' err]
        @ fst (sendMessage s jid failureText),
      Returned ())"
  using assms
  by (simp add: handleMessage_passes tryBlock_registered replyWithClaude_threw io_catch_def
      catchBlock_eq)

lemma handleMessage_succeeded:
  assumes "passesFilters msg jid phone"
    and "snd (lookupUserId s phone) = Returned (Some uid)" and "uid \<noteq> ''''"
    and "snd (askClaude s cbs (messageText msg) phone uid) = Returned response"
  shows "handleMessage s cbs msg =
     (entryLog msg jid phone
        @ fst (presenceSubscribe s jid) @ fst (sendPresenceUpdate s ''composing'' jid)
        @ fst (askClaude s cbs (messageText msg) phone uid)
        @ fst (sendPresenceUpdate s ''paused'' jid)
        @ fst (sendMessage s jid response)
        @ [ConsoleLog (''[WhatsApp] Reply to '' @ phone @ '': '' @ take 100 response @ ''...'')],
      Returned ())"
  using assms
  by (simp add: handleMessage_passes tryBlock_registered replyWithClaude_returned io_catch_def)

lemma sentMessages_append: "sentMessages (xs @ ys) = sentMessages xs @ sentMessages ys"
  by (induction xs rule: sentMessages.induct) simp_all


lemma sentMessages_entryLog: "sentMessages (entryLog msg jid phone) = []"
  by (simp add: entryLog_def)


lemma sentMessages_replicate_kill: "sentMessages (replicate n ChildKill) = []"
  by (induction n) simp_all

lemma sentMessages_askClaude: "sentMessages (fst (askClaude s cbs question phone uid)) = []"
  by (simp add: askClaude_def Let_def sentMessages_replicate_kill)

lemma paused_not_in_askClaude:
  "SendPresenceUpdate presence jid \<notin> set (fst (askClaude s cbs question phone uid))"
  by (auto simp: askClaude_def Let_def)

lemma paused_not_in_entryLog: "SendPresenceUpdate presence jid \<notin> set (entryLog msg jid' phone)"
  by (simp add: entryLog_def)

section \<open>The examples and the calls on the socket\<close>

lemma example_passes:
  "passesFilters (textMessage ''15551234567:9@s.whatsapp.net'' ''status?'')
     ''15551234567:9@s.whatsapp.net'' ''15551234567''"
  by (simp add: passesFilters_def textMessage_def includes_str_def endsWith_def resolvePhone_def
      suffix_to_prefix messageText_def orElse_def sublist_Cons_right)

lemma example_lookup:
  "snd (lookupUserId (connectedService (registeredOnly ''15551234567'' ''u1'')) ''15551234567'')
     = Returned (Some ''u1'')"
  by (simp add: lookupUserId_def connectedService_def registeredOnly_def newService_def io_return_def)

lemma example_text: "messageText (textMessage jid ''status?'') = ''status?''"
  by (simp add: messageText_def textMessage_def orElse_def)

lemma example_socket: "socket (connectedService lookup) \<noteq> None"
  by (simp add: connectedService_def)

lemma example_entryLog:
  "entryLog (textMessage ''15551234567:9@s.whatsapp.net'' ''status?'')
     ''15551234567:9@s.whatsapp.net'' ''15551234567''
   = [ConsoleLog ''[WhatsApp] Message from 15551234567: status?'']"
  by (simp add: entryLog_def endsWith_def suffix_to_prefix example_text)

lemma socketCalls_askClaude: "filter isSocketCall (fst (askClaude s cbs question phone uid)) = []"
  by (simp add: askClaude_def Let_def)




lemma quiet_bind:
  assumes "noSocketCalls m" and "\<And>x. noSocketCalls (f x)"
  shows "noSocketCalls (io_bind m f)"
proof (cases m)
  case (Pair es r)
  show ?thesis
  proof (cases r)
    case (Returned x)
    with Pair assms(1) assms(2)[of x] show ?thesis
      by (cases "f x") (auto simp: io_bind_def noSocketCalls_def)
  next
    case (Threw x)
    with Pair assms(1) show ?thesis by (simp add: io_bind_def noSocketCalls_def)
  next
    case Pending
    with Pair assms(1) show ?thesis by (simp add: io_bind_def noSocketCalls_def)
  qed
qed

lemma quiet_catch:
  assumes "noSocketCalls m" and "\<And>x. noSocketCalls (h x)"
  shows "noSocketCalls (io_catch m h)"
proof (cases m)
  case (Pair es r)
  show ?thesis
  proof (cases r)
    case (Threw x)
    with Pair assms(1) assms(2)[of x] show ?thesis
      by (cases "h x") (auto simp: io_catch_def noSocketCalls_def)
  next
    case (Returned x)
    with Pair assms(1) show ?thesis by (simp add: io_catch_def noSocketCalls_def)
  next
    case Pending
    with Pair assms(1) show ?thesis by (simp add: io_catch_def noSocketCalls_def)
  qed
qed

lemma quiet_if: "noSocketCalls a \<Longrightarrow> noSocketCalls b \<Longrightarrow> noSocketCalls (if c then a else b)"
  by simp

lemma quiet_case_option:
  "noSocketCalls a \<Longrightarrow> (\<And>x. noSocketCalls (f x)) \<Longrightarrow>
   noSocketCalls (case found of None \<Rightarrow> a | Some x \<Rightarrow> f x)"
  by (cases found) simp_all

lemma quiet_askClaude: "noSocketCalls (askClaude s cbs question phone uid)"
  by (auto simp: askClaude_def Let_def noSocketCalls_def)

lemma quiet_lookupUserId: "noSocketCalls (lookupUserId s phone)"
  by (simp add: fst_lookupUserId noSocketCalls_def)

lemma quiet_calls:
  assumes "socket s = None"
  shows "noSocketCalls (sendMessage s jid body)"
    and "noSocketCalls (presenceSubscribe s jid)"
    and "noSocketCalls (sendPresenceUpdate s presence jid)"
  using assms
  by (simp_all add: sendMessage_cases presenceSubscribe_cases sendPresenceUpdate_cases
      noSocketCalls_def)

lemma quiet_log: "noSocketCalls (io_do (ConsoleLog body))"
  and quiet_error: "noSocketCalls (io_do (ConsoleError body err))"
  and quiet_return: "noSocketCalls (io_return x)"
  by (simp_all add: io_do_def io_return_def noSocketCalls_def)

lemma quiet_replyWithClaude:
  assumes "socket s = None"
  shows "noSocketCalls (replyWithClaude s cbs jid phone body uid)"
  unfolding replyWithClaude_def
  by (intro quiet_bind quiet_calls[OF assms] quiet_askClaude quiet_log)

lemma quiet_tryBlock:
  assumes "socket s = None"
  shows "noSocketCalls (tryBlock s cbs jid phone body)"
  unfolding tryBlock_def
  by (intro quiet_bind quiet_case_option quiet_if quiet_lookupUserId quiet_calls[OF assms]
      quiet_replyWithClaude[OF assms])

lemma quiet_catchBlock:
  assumes "socket s = None"
  shows "noSocketCalls (catchBlock s jid err)"
  unfolding catchBlock_def
  by (intro quiet_bind quiet_calls[OF assms] quiet_error)

lemma quiet_handleMessage:
  assumes "socket s = None"
  shows "noSocketCalls (handleMessage s cbs msg)"
  unfolding handleMessage_def
  by (intro quiet_case_option quiet_if quiet_bind quiet_catch quiet_log quiet_return
      quiet_tryBlock[OF assms] quiet_catchBlock[OF assms])

lemma sentMessages_quiet: "\<forall>e\<in>set es. \<not> isSocketCall e \<Longrightarrow> sentMessages es = []"
  by (induction es rule: sentMessages.induct) simp_all

section \<open>The supervisor and the resolver\<close>

lemma initialize_noop:
  assumes "socket s \<noteq> None \<or> initializing s"
  shows "initialize_enter authDirExists s = ([], s, False)"
    and "initialize authDirExists sock s = ([], s)"
  using assms by (auto simp: initialize_enter_def initialize_def)

lemma initialize_fresh:
  assumes "socket s = None" and "\<not> initializing s"
  shows "initialize authDirExists sock s =
     (ConsoleLog ''[WhatsApp] Initializing with Baileys...''
        # (if \<not> authDirExists then [MkdirAuthDir] else [])
        @ [UseMultiFileAuthState, MakeWASocket, EvOn ''creds.update'', EvOn ''connection.update'',
           EvOn ''messages.upsert''],
      s\<lparr>initializing := False, socket := Some sock\<rparr>)"
  using assms by (simp add: initialize_def initialize_enter_def initialize_resume_def)

lemma timersSet_append: "timersSet (xs @ ys) = timersSet xs @ timersSet ys"
  by (induction xs rule: timersSet.induct) simp_all

lemma onQr_keeps:
  "socket (snd (onQr u s)) = socket s" "initializing (snd (onQr u s)) = initializing s"
  "timersSet (fst (onQr u s)) = []"
  by (simp_all add: onQr_def split: option.splits)

lemma onConnectionUpdate_close:
  assumes "connection u = Some ''close''"
  shows "onConnectionUpdate loggedOut u s =
     (fst (onQr u s) @ fst (onClose loggedOut u (snd (onQr u s))),
      snd (onClose loggedOut u (snd (onQr u s))))"
  using assms by (simp add: onConnectionUpdate_def split: prod.splits)

lemma split_str_nonempty: "split_str s sep \<noteq> []"
  by (induction s) (auto split: list.splits)

lemma hd_split_str: "hd (split_str s sep) = takeWhile (\<lambda>c. c \<noteq> sep) s"
proof (induction s)
  case Nil
  then show ?case by simp
next
  case (Cons c s)
  then show ?case using split_str_nonempty[of s sep] by (auto split: list.splits)
qed

lemma replace_str_here: "replace_str (pat @ post) pat rep = rep @ post"
proof (cases "pat @ post")
  case Nil
  then show ?thesis by simp
next
  case (Cons c cs)
  have "prefix pat (c # cs)" by (metis Cons prefixI)
  moreover have "drop (length pat) (c # cs) = post" by (metis Cons append_eq_conv_conj)
  ultimately show ?thesis by (simp add: Cons)
qed

lemma replace_str_skip:
  assumes "p \<notin> set body"
  shows "replace_str (body @ (p # ps) @ post) (p # ps) rep = body @ rep @ post"
  using assms
proof (induction body)
  case Nil
  show ?case using replace_str_here[of "p # ps" post rep] by simp
next
  case (Cons c body)
  then have "c \<noteq> p" by auto
  then have "\<not> prefix (p # ps) (c # body @ (p # ps) @ post)" by simp
  with Cons show ?case by simp
qed

lemma resolvePhone_address:
  assumes "CHR ''@'' \<notin> set body"
  shows "resolvePhone (body @ ''@s.whatsapp.net'') = Some (takeWhile (\<lambda>c. c \<noteq> CHR '':'') body)"
proof -
  have "replace_str (body @ ''@s.whatsapp.net'' @ []) ''@s.whatsapp.net'' '''' = body @ '''' @ []"
    using assms by (rule replace_str_skip)
  then have "replace_str (body @ ''@s.whatsapp.net'') ''@s.whatsapp.net'' '''' = body" by simp
  moreover have "endsWith (body @ ''@s.whatsapp.net'') ''@s.whatsapp.net''"
    unfolding endsWith_def by (rule suffixI[OF refl])
  ultimately show ?thesis
    by (simp only: resolvePhone_def hd_split_str if_True)
qed

text \<open>
  Outside that form, in a string that holds the suffix text twice, \<^verbatim>\<open>replace\<close> removes
  the first occurrence and the second one stays.
\<close>

lemma resolvePhone_suffix_twice:
  "resolvePhone ''a@s.whatsapp.netb@s.whatsapp.net'' = Some ''ab@s.whatsapp.net''"
  by (simp add: resolvePhone_def endsWith_def suffix_to_prefix)

section \<open>The claims about the dispatcher\<close>

text \<open>
  Claim C1, as the code has it. When the generator \<^verbatim>\<open>onGetMcpConfig\<close> is set and
  returns a non-empty path, the dispatcher spawns the backend once, with the argument list
  \<^verbatim>\<open>--print --model sonnet --dangerously-skip-permissions --mcp-config <path>
  --system-prompt <text> --max-turns 5 -- <question>\<close>, where the path is the one the
  generator returned: the pair is spliced in at index 4, after
  \<^verbatim>\<open>--dangerously-skip-permissions\<close> and before \<^verbatim>\<open>--system-prompt\<close>. When no
  generator is set, or it returns the empty path, the pair is absent and the other
  arguments keep their order.
\<close>

theorem askClaude_args_order:
  "(path \<noteq> '''' \<longrightarrow>
      askClaude_args question prompt path =
        [''--print'', ''--model'', ''sonnet'', ''--dangerously-skip-permissions'',
         ''--mcp-config'', path, ''--system-prompt'', prompt, ''--max-turns'', ''5'',
         ''--'', question])
   \<and> (path = '''' \<longrightarrow>
      askClaude_args question prompt path =
        [''--print'', ''--model'', ''sonnet'', ''--dangerously-skip-permissions'',
         ''--system-prompt'', prompt, ''--max-turns'', ''5'', ''--'', question])
   \<and> (onGetMcpConfig s = Some gen \<and> gen () \<noteq> '''' \<longrightarrow>
        hd (fst (askClaude s cbs question phone uid)) =
          Spawn ''claude''
            [''--print'', ''--model'', ''sonnet'', ''--dangerously-skip-permissions'',
             ''--mcp-config'', gen (), ''--system-prompt'', systemPrompt uid phone,
             ''--max-turns'', ''5'', ''--'', question] uid)
   \<and> (onGetMcpConfig s = None \<or> (onGetMcpConfig s = Some gen \<and> gen () = '''') \<longrightarrow>
        hd (fst (askClaude s cbs question phone uid)) =
          Spawn ''claude''
            [''--print'', ''--model'', ''sonnet'', ''--dangerously-skip-permissions'',
             ''--system-prompt'', systemPrompt uid phone,
             ''--max-turns'', ''5'', ''--'', question] uid)
   \<and> spawnCount (fst (askClaude s cbs question phone uid)) = 1"
  by (auto simp: askClaude_args_def splice_js_def askClaude_def Let_def mcpConfigPath_def
      spawnCount_replicate_kill)

theorem askClaude_args_order_witness:
  "hd (fst (askClaude (newService\<lparr>onGetMcpConfig := Some (\<lambda>u. ''/tmp/mcp.json'')\<rparr>)
             [OnStdout ''ok'', OnClose (Some 0)] ''status?'' ''15551234567'' ''u1'')) =
     Spawn ''claude''
       [''--print'', ''--model'', ''sonnet'', ''--dangerously-skip-permissions'',
        ''--mcp-config'', ''/tmp/mcp.json'', ''--system-prompt'', systemPrompt ''u1'' ''15551234567'',
        ''--max-turns'', ''5'', ''--'', ''status?''] ''u1''
   \<and> hd (fst (askClaude (newService\<lparr>onGetMcpConfig := Some (\<lambda>u. '''')\<rparr>)
             [OnStdout ''ok'', OnClose (Some 0)] ''status?'' ''15551234567'' ''u1'')) =
     Spawn ''claude''
       [''--print'', ''--model'', ''sonnet'', ''--dangerously-skip-permissions'',
        ''--system-prompt'', systemPrompt ''u1'' ''15551234567'',
        ''--max-turns'', ''5'', ''--'', ''status?''] ''u1''
   \<and> hd (fst (askClaude newService
             [OnStdout ''ok'', OnClose (Some 0)] ''status?'' ''15551234567'' ''u1'')) =
     Spawn ''claude''
       [''--print'', ''--model'', ''sonnet'', ''--dangerously-skip-permissions'',
        ''--system-prompt'', systemPrompt ''u1'' ''15551234567'',
        ''--max-turns'', ''5'', ''--'', ''status?''] ''u1''"
proof -
  have a: "onGetMcpConfig (newService\<lparr>onGetMcpConfig := Some (\<lambda>u. ''/tmp/mcp.json'')\<rparr>)
             = Some (\<lambda>u. ''/tmp/mcp.json'') \<and> (\<lambda>u::unit. ''/tmp/mcp.json'') () \<noteq> ''''"
    by simp
  have b: "onGetMcpConfig (newService\<lparr>onGetMcpConfig := Some (\<lambda>u. '''')\<rparr>) = None
           \<or> (onGetMcpConfig (newService\<lparr>onGetMcpConfig := Some (\<lambda>u. '''')\<rparr>) = Some (\<lambda>u. '''')
               \<and> (\<lambda>u::unit. '''') () = '''')"
    by simp
  have c: "onGetMcpConfig newService = None \<or> (onGetMcpConfig newService = Some (\<lambda>u. '''')
               \<and> (\<lambda>u::unit. '''') () = '''')"
    by (simp add: newService_def)
  show ?thesis
    using a b c
      askClaude_args_order[where s = "newService\<lparr>onGetMcpConfig := Some (\<lambda>u. ''/tmp/mcp.json'')\<rparr>"
        and gen = "\<lambda>u. ''/tmp/mcp.json''" and cbs = "[OnStdout ''ok'', OnClose (Some 0)]"
        and question = "''status?''" and phone = "''15551234567''" and uid = "''u1''"]
      askClaude_args_order[where s = "newService\<lparr>onGetMcpConfig := Some (\<lambda>u. '''')\<rparr>"
        and gen = "\<lambda>u. ''''" and cbs = "[OnStdout ''ok'', OnClose (Some 0)]"
        and question = "''status?''" and phone = "''15551234567''" and uid = "''u1''"]
      askClaude_args_order[where s = newService
        and gen = "\<lambda>u. ''''" and cbs = "[OnStdout ''ok'', OnClose (Some 0)]"
        and question = "''status?''" and phone = "''15551234567''" and uid = "''u1''"]
    by (simp add: newService_def)
qed

text \<open>
  The order claim C1 states, with the pair after \<^verbatim>\<open>--max-turns 5\<close>, is not the list
  the code builds.
\<close>

theorem mcp_config_after_max_turns_counterexample:
  "askClaude_args ''status?'' ''prompt'' ''/tmp/mcp.json'' \<noteq>
     [''--print'', ''--model'', ''sonnet'', ''--dangerously-skip-permissions'',
      ''--system-prompt'', ''prompt'', ''--max-turns'', ''5'',
      ''--mcp-config'', ''/tmp/mcp.json'', ''--'', ''status?'']"
  by (simp add: askClaude_args_def splice_js_def)

text \<open>
  Claim C2. A dispatch returns a text \<open>v\<close> exactly when the \<^verbatim>\<open>close\<close> event with exit
  code 0 is delivered while the promise is pending (only pipe data came before it) and
  the captured standard output, trimmed, is the non-empty \<open>v\<close>: the output is \<open>v\<close> with
  white space on both sides, and \<open>v\<close> neither starts nor ends with white space. When the
  \<^verbatim>\<open>close\<close> event is delivered while the promise is pending with another exit code, or
  with a standard output of white space only, the dispatch fails with the captured
  standard error, or, when that is empty, with \<^verbatim>\<open>Claude exited with code\<close> followed by
  the decimal numeral of the code (\<^verbatim>\<open>null\<close> without a code).
\<close>

theorem askClaude_success_iff_clean_exit:
  "((snd (askClaude s cbs question phone uid) = Returned v) =
      (\<exists>pre post. cbs = pre @ OnClose (Some 0) # post \<and> (\<forall>c\<in>set pre. isData c)
          \<and> trim (stdoutOf pre) \<noteq> '''' \<and> v = trim (stdoutOf pre)))
   \<and> ((\<forall>c\<in>set pre'. isData c) \<and> \<not> (code = Some 0 \<and> trim (stdoutOf pre') \<noteq> '''') \<longrightarrow>
        snd (askClaude s (pre' @ OnClose code # post') question phone uid) =
          Threw (Error (if stderrOf pre' \<noteq> '''' then stderrOf pre'
                        else ''Claude exited with code '' @ showCode code)))
   \<and> ((snd (askClaude s cbs question phone uid) = Returned v) =
      (\<exists>pre post l r. cbs = pre @ OnClose (Some 0) # post \<and> (\<forall>c\<in>set pre. isData c)
          \<and> stdoutOf pre = l @ v @ r \<and> list_all isWhiteSpace l \<and> list_all isWhiteSpace r
          \<and> v \<noteq> '''' \<and> \<not> isWhiteSpace (hd v) \<and> \<not> isWhiteSpace (last v)))
   \<and> ((\<forall>c\<in>set pre'. isData c) \<and> (code \<noteq> Some 0 \<or> list_all isWhiteSpace (stdoutOf pre')) \<longrightarrow>
        (\<exists>t. namesCode t code
           \<and> snd (askClaude s (pre' @ OnClose code # post') question phone uid) =
               Threw (Error (if stderrOf pre' \<noteq> '''' then stderrOf pre'
                             else ''Claude exited with code '' @ t))))
   \<and> (isWhiteSpace c =
        (c \<in> {CHR 0x09, CHR 0x0A, CHR 0x0B, CHR 0x0C, CHR 0x0D, CHR 0x20, CHR 0xA0}))"
proof (intro conjI impI)
  show "(snd (askClaude s cbs question phone uid) = Returned v) =
      (\<exists>pre post. cbs = pre @ OnClose (Some 0) # post \<and> (\<forall>c\<in>set pre. isData c)
          \<and> trim (stdoutOf pre) \<noteq> '''' \<and> v = trim (stdoutOf pre))"
    by (rule askClaude_returned_iff)
  show "(snd (askClaude s cbs question phone uid) = Returned v) =
      (\<exists>pre post l r. cbs = pre @ OnClose (Some 0) # post \<and> (\<forall>c\<in>set pre. isData c)
          \<and> stdoutOf pre = l @ v @ r \<and> list_all isWhiteSpace l \<and> list_all isWhiteSpace r
          \<and> v \<noteq> '''' \<and> \<not> isWhiteSpace (hd v) \<and> \<not> isWhiteSpace (last v))"
    unfolding askClaude_returned_iff trimmed_iff by blast
  show "isWhiteSpace c =
        (c \<in> {CHR 0x09, CHR 0x0A, CHR 0x0B, CHR 0x0C, CHR 0x0D, CHR 0x20, CHR 0xA0})"
    by (rule isWhiteSpace_def)
next
  assume "(\<forall>c\<in>set pre'. isData c) \<and> \<not> (code = Some 0 \<and> trim (stdoutOf pre') \<noteq> '''')"
  then show "snd (askClaude s (pre' @ OnClose code # post') question phone uid) =
          Threw (Error (if stderrOf pre' \<noteq> '''' then stderrOf pre'
                        else ''Claude exited with code '' @ showCode code))"
    by (simp add: askClaude_on_close)
next
  assume h: "(\<forall>c\<in>set pre'. isData c) \<and> (code \<noteq> Some 0 \<or> list_all isWhiteSpace (stdoutOf pre'))"
  then have "\<not> (code = Some 0 \<and> trim (stdoutOf pre') \<noteq> '''')"
    by (auto simp: trim_empty)
  with h have "snd (askClaude s (pre' @ OnClose code # post') question phone uid) =
          Threw (Error (if stderrOf pre' \<noteq> '''' then stderrOf pre'
                        else ''Claude exited with code '' @ showCode code))"
    by (simp add: askClaude_on_close)
  with namesCode_showCode[of code]
  show "\<exists>t. namesCode t code
           \<and> snd (askClaude s (pre' @ OnClose code # post') question phone uid) =
               Threw (Error (if stderrOf pre' \<noteq> '''' then stderrOf pre'
                             else ''Claude exited with code '' @ t))"
    by blast
qed

theorem askClaude_success_iff_clean_exit_witness:
  "snd (askClaude newService
          [OnStdout [CHR 0x09, CHR 0x0A, CHR 0x0B, CHR 0x0C, CHR 0x0D, CHR 0x20, CHR 0xA0],
           OnStdout ''Project X is idle'',
           OnStdout [CHR 0xA0, CHR 0x20, CHR 0x0D, CHR 0x0C, CHR 0x0B, CHR 0x0A, CHR 0x09],
           OnClose (Some 0), OnTimeout]
          ''status?'' ''15551234567'' ''u1'') = Returned ''Project X is idle''
   \<and> snd (askClaude newService [OnStderr ''boom'', OnClose (Some 1), OnTimeout]
          ''status?'' ''15551234567'' ''u1'') = Threw (Error ''boom'')
   \<and> snd (askClaude newService [OnStdout '' '', OnClose (Some 0), OnTimeout]
          ''status?'' ''15551234567'' ''u1'') = Threw (Error ''Claude exited with code 0'')
   \<and> snd (askClaude newService [OnStdout ''partial'', OnClose (Some 137), OnTimeout]
          ''status?'' ''15551234567'' ''u1'') = Threw (Error ''Claude exited with code 137'')
   \<and> snd (askClaude newService [OnClose (Some (- 2)), OnTimeout]
          ''status?'' ''15551234567'' ''u1'') = Threw (Error ''Claude exited with code -2'')
   \<and> snd (askClaude newService [OnClose None, OnTimeout]
          ''status?'' ''15551234567'' ''u1'') = Threw (Error ''Claude exited with code null'')"
proof -
  let ?ws1 = "[CHR 0x09, CHR 0x0A, CHR 0x0B, CHR 0x0C, CHR 0x0D, CHR 0x20, CHR 0xA0]"
  let ?ws2 = "[CHR 0xA0, CHR 0x20, CHR 0x0D, CHR 0x0C, CHR 0x0B, CHR 0x0A, CHR 0x09]"
  let ?pre = "[OnStdout ?ws1, OnStdout ''Project X is idle'', OnStdout ?ws2]"
  have a: "?pre @ OnClose (Some 0) # [OnTimeout]
           = [OnStdout ?ws1, OnStdout ''Project X is idle'', OnStdout ?ws2, OnClose (Some 0), OnTimeout]"
    by simp
  have b: "\<forall>c\<in>set ?pre. isData c" by simp
  have c: "trim (stdoutOf ?pre) = ''Project X is idle''"
    by (simp add: trim_def isWhiteSpace_def)
  have d: "\<exists>pre post.
             [OnStdout ?ws1, OnStdout ''Project X is idle'', OnStdout ?ws2, OnClose (Some 0), OnTimeout]
               = pre @ OnClose (Some 0) # post \<and> (\<forall>c\<in>set pre. isData c)
             \<and> trim (stdoutOf pre) \<noteq> '''' \<and> ''Project X is idle'' = trim (stdoutOf pre)"
    using a b c by (metis list.distinct(1))
  have e: "(\<forall>c\<in>set [OnStderr ''boom'']. isData c)
           \<and> \<not> (Some 1 = Some (0::int) \<and> trim (stdoutOf [OnStderr ''boom'']) \<noteq> '''')" by simp
  have f: "(\<forall>c\<in>set [OnStdout '' '']. isData c)
           \<and> \<not> (Some 0 = Some (0::int) \<and> trim (stdoutOf [OnStdout '' '']) \<noteq> '''')"
    by (simp add: trim_def isWhiteSpace_def)
  have g: "(\<forall>c\<in>set [OnStdout ''partial'']. isData c)
           \<and> \<not> (Some 137 = Some (0::int) \<and> trim (stdoutOf [OnStdout ''partial'']) \<noteq> '''')" by simp
  have h: "(\<forall>c\<in>set []. isData c)
           \<and> \<not> (Some (- 2) = Some (0::int) \<and> trim (stdoutOf []) \<noteq> '''')" by simp
  have i: "(\<forall>c\<in>set []. isData c)
           \<and> \<not> (None = Some (0::int) \<and> trim (stdoutOf []) \<noteq> '''')" by simp
  have one: "snd (askClaude newService
          [OnStdout ?ws1, OnStdout ''Project X is idle'', OnStdout ?ws2, OnClose (Some 0), OnTimeout]
          ''status?'' ''15551234567'' ''u1'') = Returned ''Project X is idle''"
    using d askClaude_success_iff_clean_exit[where s = newService
        and cbs = "[OnStdout ?ws1, OnStdout ''Project X is idle'', OnStdout ?ws2, OnClose (Some 0), OnTimeout]"
        and question = "''status?''" and phone = "''15551234567''" and uid = "''u1''"
        and v = "''Project X is idle''", THEN conjunct1]
    by blast
  have rest: "snd (askClaude newService ([OnStderr ''boom''] @ OnClose (Some 1) # [OnTimeout])
          ''status?'' ''15551234567'' ''u1'') = Threw (Error ''boom'')
   \<and> snd (askClaude newService ([OnStdout '' ''] @ OnClose (Some 0) # [OnTimeout])
          ''status?'' ''15551234567'' ''u1'') = Threw (Error ''Claude exited with code 0'')
   \<and> snd (askClaude newService ([OnStdout ''partial''] @ OnClose (Some 137) # [OnTimeout])
          ''status?'' ''15551234567'' ''u1'') = Threw (Error ''Claude exited with code 137'')
   \<and> snd (askClaude newService ([] @ OnClose (Some (- 2)) # [OnTimeout])
          ''status?'' ''15551234567'' ''u1'') = Threw (Error ''Claude exited with code -2'')
   \<and> snd (askClaude newService ([] @ OnClose None # [OnTimeout])
          ''status?'' ''15551234567'' ''u1'') = Threw (Error ''Claude exited with code null'')"
    using
      askClaude_success_iff_clean_exit[THEN conjunct2, THEN conjunct1, rule_format, OF e,
        of newService "[OnTimeout]" "''status?''" "''15551234567''" "''u1''"]
      askClaude_success_iff_clean_exit[THEN conjunct2, THEN conjunct1, rule_format, OF f,
        of newService "[OnTimeout]" "''status?''" "''15551234567''" "''u1''"]
      askClaude_success_iff_clean_exit[THEN conjunct2, THEN conjunct1, rule_format, OF g,
        of newService "[OnTimeout]" "''status?''" "''15551234567''" "''u1''"]
      askClaude_success_iff_clean_exit[THEN conjunct2, THEN conjunct1, rule_format, OF h,
        of newService "[OnTimeout]" "''status?''" "''15551234567''" "''u1''"]
      askClaude_success_iff_clean_exit[THEN conjunct2, THEN conjunct1, rule_format, OF i,
        of newService "[OnTimeout]" "''status?''" "''15551234567''" "''u1''"]
    by (simp add: showCode_def decimal.simps)
  from one rest show ?thesis by simp
qed

text \<open>
  Claim C3, as the code has it. When the timer of 120000 ms fires on a dispatch that is
  still pending (no \<^verbatim>\<open>close\<close> and no \<^verbatim>\<open>error\<close> event was delivered before),
  the dispatcher calls \<^verbatim>\<open>child.kill()\<close> once and the dispatch fails with
  \<^verbatim>\<open>Request timed out\<close>, whatever is delivered afterwards. The call completes at
  that moment: no exit of the subprocess has been observed, and none is waited for.
\<close>

theorem askClaude_timeout:
  assumes "settled (deliverAll pre spawned) = None"
  shows "askClaude s (pre @ OnTimeout # post) question phone uid =
     ([Spawn ''claude'' (askClaude_args question (systemPrompt uid phone) (mcpConfigPath s)) uid,
       SetTimeout KillAndReject 120000, ChildKill],
      Threw (Error ''Request timed out''))
   \<and> \<not> exitObserved pre"
proof -
  from assms have pre: "\<forall>c\<in>set pre. isData c"
    by (simp add: deliverAll_def settled_fold_None)
  have "\<not> list_ex isClose pre"
  proof
    assume "list_ex isClose pre"
    then obtain c where "c \<in> set pre" "isClose c" by (auto simp: list_ex_iff)
    with pre show False by (cases c) auto
  qed
  with pre show ?thesis
    by (simp add: askClaude_on_timeout exitObserved_def)
qed

theorem askClaude_timeout_witness:
  "settled (deliverAll [OnStdout ''partial''] spawned) = None
   \<and> askClaude newService [OnStdout ''partial'', OnTimeout, OnClose None] ''q'' ''1'' ''u1'' =
     ([Spawn ''claude'' (askClaude_args ''q'' (systemPrompt ''u1'' ''1'') '''') ''u1'',
       SetTimeout KillAndReject 120000, ChildKill],
      Threw (Error ''Request timed out''))"
proof -
  have h: "settled (deliverAll [OnStdout ''partial''] spawned) = None"
    by (simp add: deliverAll_def spawned_def)
  show ?thesis
    using h askClaude_timeout[OF h, of newService "[OnClose None]" "''q''" "''1''" "''u1''"]
    by (simp add: mcpConfigPath_def newService_def)
qed

text \<open>
  A run in which the subprocess writes, the timer fires and no \<^verbatim>\<open>close\<close> event ever
  follows: \<^verbatim>\<open>child.kill()\<close> was called and the dispatch has completed as timed out,
  and the subprocess has not exited. So the completed call does not show that no live
  subprocess is left, as claim C3 has it.
\<close>

theorem timeout_leaves_process_counterexample:
  "snd (askClaude newService [OnStdout ''partial'', OnTimeout] ''q'' ''1'' ''u1'')
     = Threw (Error ''Request timed out'')
   \<and> ChildKill \<in> set (fst (askClaude newService [OnStdout ''partial'', OnTimeout] ''q'' ''1'' ''u1''))
   \<and> \<not> exitObserved [OnStdout ''partial'', OnTimeout]"
  by (simp add: askClaude_def Let_def spawned_def reject_def exitObserved_def)

section \<open>The claims about the router\<close>

text \<open>
  Claim C4, as the code has it. For a message that reaches the dispatcher (it passes the
  filters and the lookup gives a user id), the \<^verbatim>\<open>paused\<close> presence is signalled only
  when the dispatcher returns a response: then it comes after the dispatch and right
  before the response is sent. When the dispatch fails, control goes to the
  \<^verbatim>\<open>catch\<close> block, no \<^verbatim>\<open>paused\<close> presence is signalled, and the error is logged
  and the fixed failure text is sent.
\<close>

theorem paused_only_after_success:
  assumes "passesFilters msg jid phone"
    and "snd (lookupUserId s phone) = Returned (Some uid)" and "uid \<noteq> ''''"
  shows "(snd (askClaude s cbs (messageText msg) phone uid) = Returned response \<longrightarrow>
            handleMessage s cbs msg =
              (entryLog msg jid phone
                 @ fst (presenceSubscribe s jid) @ fst (sendPresenceUpdate s ''composing'' jid)
                 @ fst (askClaude s cbs (messageText msg) phone uid)
                 @ fst (sendPresenceUpdate s ''paused'' jid)
                 @ fst (sendMessage s jid response)
                 @ [ConsoleLog (''[WhatsApp] Reply to '' @ phone @ '': '' @ take 100 response @ ''...'')],
               Returned ())
            \<and> (socket s \<noteq> None \<longrightarrow>
                 fst (sendPresenceUpdate s ''paused'' jid) @ fst (sendMessage s jid response)
                   = [SendPresenceUpdate ''paused'' jid, SocketSendMessage jid response]))
       \<and> (snd (askClaude s cbs (messageText msg) phone uid) = Threw err \<longrightarrow>
            SendPresenceUpdate ''paused'' jid \<notin> set (fst (handleMessage s cbs msg))
            \<and> handleMessage s cbs msg =
              (entryLog msg jid phone
                 @ fst (presenceSubscribe s jid) @ fst (sendPresenceUpdate s ''composing'' jid)
                 @ fst (askClaude s cbs (messageText msg) phone uid)
                 @ [ConsoleError ''[WhatsApp] Error handling message:'' err]
                 @ fst (sendMessage s jid failureText),
               Returned ()))"
proof (intro conjI impI)
  assume ok: "snd (askClaude s cbs (messageText msg) phone uid) = Returned response"
  show "handleMessage s cbs msg =
              (entryLog msg jid phone
                 @ fst (presenceSubscribe s jid) @ fst (sendPresenceUpdate s ''composing'' jid)
                 @ fst (askClaude s cbs (messageText msg) phone uid)
                 @ fst (sendPresenceUpdate s ''paused'' jid)
                 @ fst (sendMessage s jid response)
                 @ [ConsoleLog (''[WhatsApp] Reply to '' @ phone @ '': '' @ take 100 response @ ''...'')],
               Returned ())"
    by (rule handleMessage_succeeded[OF assms ok])
next
  assume "socket s \<noteq> None"
  then show "fst (sendPresenceUpdate s ''paused'' jid) @ fst (sendMessage s jid response)
                   = [SendPresenceUpdate ''paused'' jid, SocketSendMessage jid response]"
    by (simp add: sendPresenceUpdate_cases sendMessage_cases)
next
  assume bad: "snd (askClaude s cbs (messageText msg) phone uid) = Threw err"
  show eq: "handleMessage s cbs msg =
              (entryLog msg jid phone
                 @ fst (presenceSubscribe s jid) @ fst (sendPresenceUpdate s ''composing'' jid)
                 @ fst (askClaude s cbs (messageText msg) phone uid)
                 @ [ConsoleError ''[WhatsApp] Error handling message:'' err]
                 @ fst (sendMessage s jid failureText),
               Returned ())"
    by (rule handleMessage_failed[OF assms bad])
  show "SendPresenceUpdate ''paused'' jid \<notin> set (fst (handleMessage s cbs msg))"
    by (simp add: eq paused_not_in_entryLog paused_not_in_askClaude presenceSubscribe_cases
        sendPresenceUpdate_cases sendMessage_cases)
qed

theorem paused_only_after_success_witness:
  "filter isSocketCall
     (fst (handleMessage (connectedService (registeredOnly ''15551234567'' ''u1''))
             [OnStdout ''Project X is idle'', OnClose (Some 0), OnTimeout]
             (textMessage ''15551234567:9@s.whatsapp.net'' ''status?'')))
   = [PresenceSubscribe ''15551234567:9@s.whatsapp.net'',
      SendPresenceUpdate ''composing'' ''15551234567:9@s.whatsapp.net'',
      SendPresenceUpdate ''paused'' ''15551234567:9@s.whatsapp.net'',
      SocketSendMessage ''15551234567:9@s.whatsapp.net'' ''Project X is idle'']"
proof -
  have u: "''u1'' \<noteq> ''''" by simp
  have a: "snd (askClaude (connectedService (registeredOnly ''15551234567'' ''u1''))
             [OnStdout ''Project X is idle'', OnClose (Some 0), OnTimeout]
             (messageText (textMessage ''15551234567:9@s.whatsapp.net'' ''status?''))
             ''15551234567'' ''u1'') = Returned ''Project X is idle''"
    using askClaude_on_close[of "[OnStdout ''Project X is idle'']" _ "Some 0" "[OnTimeout]"]
    by (simp add: trim_def isWhiteSpace_def)
  show ?thesis
    using a paused_only_after_success[OF example_passes example_lookup u,
        of "[OnStdout ''Project X is idle'', OnClose (Some 0), OnTimeout]" "''Project X is idle''"]
    by (simp add: example_entryLog example_socket presenceSubscribe_cases sendPresenceUpdate_cases
        sendMessage_cases socketCalls_askClaude)
qed

text \<open>
  A dispatch that exits with code 1: the calls on the socket are the subscription, the
  \<^verbatim>\<open>composing\<close> presence and the failure text. The \<^verbatim>\<open>paused\<close> presence that claim
  C4 expects on every outcome is not among them.
\<close>

theorem paused_on_every_outcome_counterexample:
  "filter isSocketCall
     (fst (handleMessage (connectedService (registeredOnly ''15551234567'' ''u1''))
             [OnStderr ''boom'', OnClose (Some 1), OnTimeout]
             (textMessage ''15551234567:9@s.whatsapp.net'' ''status?'')))
   = [PresenceSubscribe ''15551234567:9@s.whatsapp.net'',
      SendPresenceUpdate ''composing'' ''15551234567:9@s.whatsapp.net'',
      SocketSendMessage ''15551234567:9@s.whatsapp.net''
        ''Sorry, I encountered an error. Please try again.'']"
proof -
  have u: "''u1'' \<noteq> ''''" by simp
  have a: "snd (askClaude (connectedService (registeredOnly ''15551234567'' ''u1''))
             [OnStderr ''boom'', OnClose (Some 1), OnTimeout]
             (messageText (textMessage ''15551234567:9@s.whatsapp.net'' ''status?''))
             ''15551234567'' ''u1'') = Threw (Error ''boom'')"
    using askClaude_on_close[of "[OnStderr ''boom'']" _ "Some 1" "[OnTimeout]"]
    by simp
  show ?thesis
    by (simp add: handleMessage_failed[OF example_passes example_lookup u a] example_entryLog
        example_socket presenceSubscribe_cases sendPresenceUpdate_cases sendMessage_cases
        socketCalls_askClaude failureText_def)
qed

text \<open>
  Claim C5. When the dispatch of a message fails, with whatever error (a timeout, an exit
  that is not clean, an error event), the router logs the error and makes one call of \<^verbatim>\<open>sendMessage\<close>, with the fixed failure text. No
  other text goes to the transport, and with the socket present the transport receives
  exactly this one text. The error appears only in the console output.
\<close>

theorem failure_reply_is_generic:
  assumes "passesFilters msg jid phone"
    and "snd (lookupUserId s phone) = Returned (Some uid)" and "uid \<noteq> ''''"
    and "snd (askClaude s cbs (messageText msg) phone uid) = Threw err"
  shows "handleMessage s cbs msg =
           (entryLog msg jid phone
              @ fst (presenceSubscribe s jid) @ fst (sendPresenceUpdate s ''composing'' jid)
              @ fst (askClaude s cbs (messageText msg) phone uid)
              @ [ConsoleError ''[WhatsApp] Error handling message:'' err]
              @ fst (sendMessage s jid failureText),
            Returned ())
         \<and> set (sentMessages (fst (handleMessage s cbs msg))) \<subseteq> {(jid, failureText)}
         \<and> (socket s \<noteq> None \<longrightarrow> sentMessages (fst (handleMessage s cbs msg)) = [(jid, failureText)])"
proof -
  have eq: "handleMessage s cbs msg =
           (entryLog msg jid phone
              @ fst (presenceSubscribe s jid) @ fst (sendPresenceUpdate s ''composing'' jid)
              @ fst (askClaude s cbs (messageText msg) phone uid)
              @ [ConsoleError ''[WhatsApp] Error handling message:'' err]
              @ fst (sendMessage s jid failureText),
            Returned ())"
    by (rule handleMessage_failed[OF assms])
  have sent: "sentMessages (fst (handleMessage s cbs msg)) =
                (if socket s = None then [] else [(jid, failureText)])"
    by (simp add: eq sentMessages_append sentMessages_entryLog sentMessages_askClaude
        presenceSubscribe_cases sendPresenceUpdate_cases sendMessage_cases)
  show ?thesis
    using eq sent by simp
qed

theorem failure_reply_is_generic_witness:
  "sentMessages
     (fst (handleMessage (connectedService (registeredOnly ''15551234567'' ''u1''))
             [OnStderr ''backend stack trace'', OnClose (Some 2), OnTimeout]
             (textMessage ''15551234567:9@s.whatsapp.net'' ''status?'')))
     = [(''15551234567:9@s.whatsapp.net'', ''Sorry, I encountered an error. Please try again.'')]
   \<and> sentMessages
     (fst (handleMessage (connectedService (registeredOnly ''15551234567'' ''u1''))
             [OnTimeout]
             (textMessage ''15551234567:9@s.whatsapp.net'' ''status?'')))
     = [(''15551234567:9@s.whatsapp.net'', ''Sorry, I encountered an error. Please try again.'')]
   \<and> sentMessages
     (fst (handleMessage (connectedService (registeredOnly ''15551234567'' ''u1''))
             [OnError (Error ''spawn claude ENOENT''), OnClose (Some (- 2)), OnTimeout]
             (textMessage ''15551234567:9@s.whatsapp.net'' ''status?'')))
     = [(''15551234567:9@s.whatsapp.net'', ''Sorry, I encountered an error. Please try again.'')]"
proof -
  have u: "''u1'' \<noteq> ''''" by simp
  have a: "snd (askClaude (connectedService (registeredOnly ''15551234567'' ''u1''))
             [OnStderr ''backend stack trace'', OnClose (Some 2), OnTimeout]
             (messageText (textMessage ''15551234567:9@s.whatsapp.net'' ''status?''))
             ''15551234567'' ''u1'') = Threw (Error ''backend stack trace'')"
    using askClaude_on_close[of "[OnStderr ''backend stack trace'']" _ "Some 2" "[OnTimeout]"]
    by simp
  have b: "snd (askClaude (connectedService (registeredOnly ''15551234567'' ''u1''))
             [OnTimeout]
             (messageText (textMessage ''15551234567:9@s.whatsapp.net'' ''status?''))
             ''15551234567'' ''u1'') = Threw (Error ''Request timed out'')"
    using askClaude_on_timeout[of "[]" _ "[]"] by simp
  have c: "snd (askClaude (connectedService (registeredOnly ''15551234567'' ''u1''))
             [OnError (Error ''spawn claude ENOENT''), OnClose (Some (- 2)), OnTimeout]
             (messageText (textMessage ''15551234567:9@s.whatsapp.net'' ''status?''))
             ''15551234567'' ''u1'') = Threw (Error ''spawn claude ENOENT'')"
    using askClaude_on_error[of "[]" _ _ "[OnClose (Some (- 2)), OnTimeout]"] by simp
  show ?thesis
    using failure_reply_is_generic[OF example_passes example_lookup u a, THEN conjunct2, THEN conjunct2]
      failure_reply_is_generic[OF example_passes example_lookup u b, THEN conjunct2, THEN conjunct2]
      failure_reply_is_generic[OF example_passes example_lookup u c, THEN conjunct2, THEN conjunct2]
    by (simp add: example_socket failureText_def)
qed



section \<open>The claims about the supervisor\<close>

text \<open>
  Claim C7. On a \<^verbatim>\<open>close\<close> event with the logged-out code no timer is set and the
  socket stays as it was; with a socket present, \<^verbatim>\<open>initialize\<close> then does nothing
  until \<^verbatim>\<open>disconnect\<close> has cleared the socket, after which it makes one. On a
  \<^verbatim>\<open>close\<close> event with any other code, or none, the socket is cleared and exactly
  one timer is set, for 3000 ms, to call \<^verbatim>\<open>initialize\<close>; that call makes exactly one
  socket, and a further call does nothing.
\<close>

theorem close_schedules_reconnect:
  assumes "connection u = Some ''close''"
  shows "(statusCode u = Some loggedOut \<longrightarrow>
            timersSet (fst (onConnectionUpdate loggedOut u s)) = []
            \<and> socket (snd (onConnectionUpdate loggedOut u s)) = socket s
            \<and> (socket s \<noteq> None \<longrightarrow>
                 initialize authDirExists sock (snd (onConnectionUpdate loggedOut u s))
                   = ([], snd (onConnectionUpdate loggedOut u s))
                 \<and> socketsMade (fst (initialize authDirExists sock
                      (snd (disconnect (snd (onConnectionUpdate loggedOut u s)))))) = 1))
       \<and> (statusCode u \<noteq> Some loggedOut \<longrightarrow>
            timersSet (fst (onConnectionUpdate loggedOut u s)) = [(Reinitialize, 3000)]
            \<and> socket (snd (onConnectionUpdate loggedOut u s)) = None
            \<and> \<not> initializing (snd (onConnectionUpdate loggedOut u s))
            \<and> socketsMade (fst (initialize authDirExists sock
                 (snd (onConnectionUpdate loggedOut u s)))) = 1
            \<and> socket (snd (initialize authDirExists sock
                 (snd (onConnectionUpdate loggedOut u s)))) = Some sock
            \<and> initialize authDirExists' sock'
                 (snd (initialize authDirExists sock (snd (onConnectionUpdate loggedOut u s))))
               = ([], snd (initialize authDirExists sock (snd (onConnectionUpdate loggedOut u s)))))"
proof (intro conjI impI)
  assume out: "statusCode u = Some loggedOut"
  show "timersSet (fst (onConnectionUpdate loggedOut u s)) = []"
    using out by (simp add: onConnectionUpdate_close[OF assms] onClose_def shouldReconnect_def
        timersSet_append onQr_keeps Let_def)
  show keep: "socket (snd (onConnectionUpdate loggedOut u s)) = socket s"
    using out by (simp add: onConnectionUpdate_close[OF assms] onClose_def shouldReconnect_def
        onQr_keeps Let_def)
  assume present: "socket s \<noteq> None"
  show "initialize authDirExists sock (snd (onConnectionUpdate loggedOut u s))
          = ([], snd (onConnectionUpdate loggedOut u s))"
    using keep present by (intro initialize_noop) simp
  show "socketsMade (fst (initialize authDirExists sock
          (snd (disconnect (snd (onConnectionUpdate loggedOut u s)))))) = 1"
    by (simp add: initialize_fresh disconnect_def)
next
  assume other: "statusCode u \<noteq> Some loggedOut"
  show "timersSet (fst (onConnectionUpdate loggedOut u s)) = [(Reinitialize, 3000)]"
    using other by (simp add: onConnectionUpdate_close[OF assms] onClose_def shouldReconnect_def
        timersSet_append onQr_keeps Let_def)
  show cleared: "socket (snd (onConnectionUpdate loggedOut u s)) = None"
    using other by (simp add: onConnectionUpdate_close[OF assms] onClose_def shouldReconnect_def
        Let_def)
  show idle: "\<not> initializing (snd (onConnectionUpdate loggedOut u s))"
    using other by (simp add: onConnectionUpdate_close[OF assms] onClose_def shouldReconnect_def
        Let_def)
  show "socketsMade (fst (initialize authDirExists sock
          (snd (onConnectionUpdate loggedOut u s)))) = 1"
    by (simp add: initialize_fresh[OF cleared idle])
  show "socket (snd (initialize authDirExists sock
          (snd (onConnectionUpdate loggedOut u s)))) = Some sock"
    by (simp add: initialize_fresh[OF cleared idle])
  show "initialize authDirExists' sock'
          (snd (initialize authDirExists sock (snd (onConnectionUpdate loggedOut u s))))
        = ([], snd (initialize authDirExists sock (snd (onConnectionUpdate loggedOut u s))))"
    by (rule initialize_noop) (simp add: initialize_fresh[OF cleared idle])
qed

theorem close_schedules_reconnect_witness:
  "timersSet (fst (onConnectionUpdate 401
       \<lparr>connection = Some ''close'', statusCode = Some 428,
        errorMessage = Some ''Connection Lost'', qr = None\<rparr>
       (connectedService (registeredOnly ''15551234567'' ''u1'')))) = [(Reinitialize, 3000)]
   \<and> socket (snd (onConnectionUpdate 401
       \<lparr>connection = Some ''close'', statusCode = Some 428,
        errorMessage = Some ''Connection Lost'', qr = None\<rparr>
       (connectedService (registeredOnly ''15551234567'' ''u1'')))) = None
   \<and> timersSet (fst (onConnectionUpdate 401
       \<lparr>connection = Some ''close'', statusCode = Some 401,
        errorMessage = Some ''Logged Out'', qr = None\<rparr>
       (connectedService (registeredOnly ''15551234567'' ''u1'')))) = []
   \<and> initialize True \<lparr>user = None\<rparr> (snd (onConnectionUpdate 401
       \<lparr>connection = Some ''close'', statusCode = Some 401,
        errorMessage = Some ''Logged Out'', qr = None\<rparr>
       (connectedService (registeredOnly ''15551234567'' ''u1''))))
     = ([], snd (onConnectionUpdate 401
       \<lparr>connection = Some ''close'', statusCode = Some 401,
        errorMessage = Some ''Logged Out'', qr = None\<rparr>
       (connectedService (registeredOnly ''15551234567'' ''u1''))))"
proof -
  have a: "connection \<lparr>connection = Some ''close'', statusCode = Some 428,
        errorMessage = Some ''Connection Lost'', qr = None\<rparr> = Some ''close''" by simp
  have b: "connection \<lparr>connection = Some ''close'', statusCode = Some 401,
        errorMessage = Some ''Logged Out'', qr = None\<rparr> = Some ''close''" by simp
  show ?thesis
    using close_schedules_reconnect[OF a, of 401 "connectedService (registeredOnly ''15551234567'' ''u1'')"]
      close_schedules_reconnect[OF b, of 401 "connectedService (registeredOnly ''15551234567'' ''u1'')"
        True "\<lparr>user = None\<rparr>"]
    by (simp add: example_socket)
qed

text \<open>
  Claim C8. A call of \<^verbatim>\<open>initialize\<close> while a socket exists or while an
  initialization is in progress returns at once: no effect, no socket made, no handler
  registered, the state unchanged.
\<close>

theorem initialize_idempotent:
  assumes "socket s \<noteq> None \<or> initializing s"
  shows "initialize_enter authDirExists s = ([], s, False)
         \<and> initialize authDirExists sock s = ([], s)"
  using initialize_noop[OF assms] by simp

theorem initialize_idempotent_witness:
  "initialize True \<lparr>user = None\<rparr> (fst (snd (initialize_enter False newService)))
     = ([], fst (snd (initialize_enter False newService)))
   \<and> initialize True \<lparr>user = Some ''2''\<rparr> (snd (initialize False \<lparr>user = Some ''1''\<rparr> newService))
     = ([], snd (initialize False \<lparr>user = Some ''1''\<rparr> newService))
   \<and> socketsMade (fst (initialize False \<lparr>user = Some ''1''\<rparr> newService)
                   @ fst (initialize True \<lparr>user = Some ''2''\<rparr>
                            (snd (initialize False \<lparr>user = Some ''1''\<rparr> newService)))) = 1"
proof -
  have a: "socket (fst (snd (initialize_enter False newService))) \<noteq> None
           \<or> initializing (fst (snd (initialize_enter False newService)))"
    by (simp add: initialize_enter_def newService_def)
  have b: "socket (snd (initialize False \<lparr>user = Some ''1''\<rparr> newService)) \<noteq> None
           \<or> initializing (snd (initialize False \<lparr>user = Some ''1''\<rparr> newService))"
    by (simp add: initialize_fresh newService_def)
  have c: "socketsMade (fst (initialize False \<lparr>user = Some ''1''\<rparr> newService)) = 1"
    by (simp add: initialize_fresh newService_def)
  show ?thesis
    using initialize_idempotent[OF a, of True "\<lparr>user = None\<rparr>"]
      initialize_idempotent[OF b, of True "\<lparr>user = Some ''2''\<rparr>"] c
    by simp
qed

section \<open>The claim about identity resolution\<close>

text \<open>
  Claim C9. \<open>resolvePhone\<close> is a function of the address alone. For every address of
  the form \<^verbatim>\<open>user@s.whatsapp.net\<close>, where the part before the suffix holds no
  \<^verbatim>\<open>@\<close>, the result is that part, cut at the first colon: a number is returned as it
  is, and a number followed by a colon and a device segment is returned without them.
\<close>

theorem resolvePhone_direct:
  "(CHR ''@'' \<notin> set body \<longrightarrow>
      resolvePhone (body @ ''@s.whatsapp.net'') = Some (takeWhile (\<lambda>c. c \<noteq> CHR '':'') body))
   \<and> (CHR ''@'' \<notin> set number \<and> CHR '':'' \<notin> set number \<and> CHR ''@'' \<notin> set device \<longrightarrow>
      resolvePhone (number @ ''@s.whatsapp.net'') = Some number
      \<and> resolvePhone (number @ '':'' @ device @ ''@s.whatsapp.net'') = Some number)"
proof (intro conjI impI)
  assume "CHR ''@'' \<notin> set body"
  then show "resolvePhone (body @ ''@s.whatsapp.net'') = Some (takeWhile (\<lambda>c. c \<noteq> CHR '':'') body)"
    by (rule resolvePhone_address)
next
  assume h: "CHR ''@'' \<notin> set number \<and> CHR '':'' \<notin> set number \<and> CHR ''@'' \<notin> set device"
  then have "takeWhile (\<lambda>c. c \<noteq> CHR '':'') number = number"
    unfolding takeWhile_eq_all_conv by auto
  with h show "resolvePhone (number @ ''@s.whatsapp.net'') = Some number"
    by (simp add: resolvePhone_address)
  have "CHR ''@'' \<notin> set (number @ '':'' @ device)" using h by simp
  then have "resolvePhone ((number @ '':'' @ device) @ ''@s.whatsapp.net'')
               = Some (takeWhile (\<lambda>c. c \<noteq> CHR '':'') (number @ '':'' @ device))"
    by (rule resolvePhone_address)
  moreover have "takeWhile (\<lambda>c. c \<noteq> CHR '':'') (number @ '':'' @ device) = number"
    using h by (auto simp: takeWhile_tail)
  ultimately show "resolvePhone (number @ '':'' @ device @ ''@s.whatsapp.net'') = Some number"
    by simp
qed

theorem resolvePhone_direct_witness:
  "resolvePhone ''15551234567:9@s.whatsapp.net'' = Some ''15551234567''
   \<and> resolvePhone ''15551234567@s.whatsapp.net'' = Some ''15551234567''"
proof -
  have a: "CHR ''@'' \<notin> set ''15551234567'' \<and> CHR '':'' \<notin> set ''15551234567''
           \<and> CHR ''@'' \<notin> set ''9''" by simp
  show ?thesis
    using a resolvePhone_direct[where number = "''15551234567''" and device = "''9''"]
    by simp
qed

section \<open>The claim about sending without a socket\<close>

text \<open>
  Claim C10. With the socket \<^verbatim>\<open>null\<close>, \<^verbatim>\<open>sendMessage\<close> returns normally and
  does nothing, so whatever \<^verbatim>\<open>handleMessage\<close> would reply (the registration text, the
  response or the failure text) never reaches the transport.
\<close>

theorem sendMessage_without_socket:
  assumes "socket s = None"
  shows "sendMessage s jid body = ([], Returned ())
         \<and> noSocketCalls (handleMessage s cbs msg)
         \<and> sentMessages (fst (handleMessage s cbs msg)) = []"
  using assms quiet_handleMessage[OF assms, of cbs msg]
  by (simp add: sendMessage_cases sentMessages_quiet noSocketCalls_def)

theorem sendMessage_without_socket_witness:
  "sendMessage newService ''15550000000@s.whatsapp.net'' (registrationText ''15550000000'')
     = ([], Returned ())
   \<and> sentMessages (fst (handleMessage newService [OnStdout ''Project X is idle'', OnClose (Some 0)]
                           (textMessage ''15550000000@s.whatsapp.net'' ''status?''))) = []
   \<and> sentMessages (fst (handleMessage
         ((connectedService (registeredOnly ''15551234567'' ''u1''))\<lparr>socket := None\<rparr>)
         [OnStdout ''Project X is idle'', OnClose (Some 0)]
         (textMessage ''15551234567:9@s.whatsapp.net'' ''status?''))) = []
   \<and> sentMessages (fst (handleMessage
         ((connectedService (registeredOnly ''15551234567'' ''u1''))\<lparr>socket := None\<rparr>)
         [OnTimeout]
         (textMessage ''15551234567:9@s.whatsapp.net'' ''status?''))) = []"
proof -
  have a: "socket newService = None" by (simp add: newService_def)
  have b: "socket ((connectedService (registeredOnly ''15551234567'' ''u1''))\<lparr>socket := None\<rparr>) = None"
    by simp
  show ?thesis
    using sendMessage_without_socket[OF a] sendMessage_without_socket[OF b]
    by simp
qed

end
